theory Spec2Isabelle
  imports Complex_Main "HOL-Library.Sublist" "HOL-Library.Multiset"
begin

section \<open>Python arithmetic and string formatting\<close>

text \<open>
  Python floats are modelled as \<^typ>\<open>real\<close>: arithmetic is exact, there is no NaN, no
  infinity and no rounding of intermediate results. \<open>int(x)\<close> truncates toward zero,
  \<open>x // y\<close> is the floor of the quotient and \<open>x % y\<close> takes the sign of the divisor.
\<close>

definition py_int :: "real \<Rightarrow> int" where
  "py_int x = (if 0 \<le> x then \<lfloor>x\<rfloor> else \<lceil>x\<rceil>)"

definition py_floordiv :: "real \<Rightarrow> real \<Rightarrow> real" where
  "py_floordiv x y = of_int \<lfloor>x / y\<rfloor>"

definition py_mod :: "real \<Rightarrow> real \<Rightarrow> real" where
  "py_mod x y = x - y * of_int \<lfloor>x / y\<rfloor>"

definition digit_char :: "nat \<Rightarrow> char" where
  "digit_char d = ''0123456789'' ! d"

function str_nat :: "nat \<Rightarrow> string" where
  "str_nat n = (if n < 10 then [digit_char n] else str_nat (n div 10) @ [digit_char (n mod 10)])"
  by pat_completeness auto
termination
  by (relation "measure id") auto

declare str_nat.simps [simp del]

definition str_int :: "int \<Rightarrow> string" where
  "str_int i = (if i < 0 then CHR ''-'' # str_nat (nat (- i)) else str_nat (nat i))"

definition zfill :: "nat \<Rightarrow> string \<Rightarrow> string" where
  "zfill width s = replicate (width - length s) CHR ''0'' @ s"

text \<open>The format specification \<open>02d\<close>: sign-aware zero padding to two characters.\<close>

definition fmt_02d :: "int \<Rightarrow> string" where
  "fmt_02d i =
     (if i < 0 then CHR ''-'' # zfill 1 (str_nat (nat (- i))) else zfill 2 (str_nat (nat i)))"

text \<open>
  The format specification \<open>05.2f\<close>: the value is rounded to two decimals, to the nearest
  hundredth and to the even one on an exact tie, then zero-padded to five characters.
\<close>

definition round_half_even :: "real \<Rightarrow> int" where
  "round_half_even x =
     (let f = \<lfloor>x\<rfloor>; d = x - of_int f
      in if d < 1 / 2 then f else if 1 / 2 < d then f + 1 else if even f then f else f + 1)"

definition fmt_05_2f :: "real \<Rightarrow> string" where
  "fmt_05_2f x =
     (let cs = nat (round_half_even (\<bar>x\<bar> * 100));
          body = str_nat (cs div 100) @ ''.'' @ zfill 2 (str_nat (cs mod 100))
      in if x < 0 then CHR ''-'' # zfill 4 body else zfill 5 body)"

section \<open>Caption generator (modules/caption\_generator.py)\<close>

text \<open>\<open>str.split()\<close> with no argument: words are the maximal runs of non-whitespace.\<close>

definition isspace :: "char \<Rightarrow> bool" where
  "isspace c = (c \<in> set [CHR 0x20, CHR 0x09, CHR 0x0A, CHR 0x0B, CHR 0x0C, CHR 0x0D,
                         CHR 0x1C, CHR 0x1D, CHR 0x1E, CHR 0x1F])"

fun split_acc :: "string \<Rightarrow> string \<Rightarrow> string list" where
  "split_acc cur [] = (if cur = [] then [] else [cur])"
| "split_acc cur (c # cs) =
     (if isspace c then (if cur = [] then split_acc [] cs else cur # split_acc [] cs)
      else split_acc (cur @ [c]) cs)"

definition py_split :: "string \<Rightarrow> string list" where
  "py_split s = split_acc [] s"

definition strip :: "string \<Rightarrow> string" where
  "strip s = rev (dropWhile isspace (rev (dropWhile isspace s)))"

fun join :: "string \<Rightarrow> string list \<Rightarrow> string" where
  "join sep [] = []"
| "join sep [x] = x"
| "join sep (x # y # ys) = x @ sep @ join sep (y # ys)"

text \<open>
  The loop of \<open>chunk_text_by_words\<close>: the state is \<open>(chunks, current_chunk)\<close>, one
  iteration per word.
\<close>

fun chunk_loop :: "int \<Rightarrow> string list \<Rightarrow> string list \<Rightarrow> string list \<Rightarrow> string list \<times> string list" where
  "chunk_loop max_words chunks current_chunk [] = (chunks, current_chunk)"
| "chunk_loop max_words chunks current_chunk (word # words) =
     (let current_chunk = current_chunk @ [word]
      in if int (length current_chunk) \<ge> max_words
         then chunk_loop max_words (chunks @ [join '' '' current_chunk]) [] words
         else chunk_loop max_words chunks current_chunk words)"

definition chunk_text_by_words :: "string \<Rightarrow> int \<Rightarrow> string list" where
  "chunk_text_by_words text max_words =
     (let words = py_split text;
          (chunks, current_chunk) = chunk_loop max_words [] [] words
      in if current_chunk \<noteq> [] then chunks @ [join '' '' current_chunk] else chunks)"

text \<open>A segment as the transcription model returns it, and a chunked caption segment.\<close>

record whisper_segment =
  seg_start :: real
  seg_end :: real
  seg_text :: string

record caption =
  c_start :: real
  c_end :: real
  c_text :: string

record transcript =
  t_text :: string
  t_segments :: "caption list"
  t_language :: string

text \<open>
  The body of the \<open>for segment in segments\<close> loop of \<open>transcribe_audio\<close>: the captions
  one raw segment appends to \<open>chunked_segments\<close> (none when the text has no word).
\<close>

definition segment_chunks :: "whisper_segment \<Rightarrow> caption list" where
  "segment_chunks segment =
     (let text = strip (seg_text segment);
          chunks = chunk_text_by_words text 5
      in if length chunks = 0 then []
         else
           let segment_duration = seg_end segment - seg_start segment;
               chunk_duration = segment_duration / real (length chunks)
           in map (\<lambda>(i, chunk).
                     let chunk_start = seg_start segment + real i * chunk_duration;
                         chunk_end = chunk_start + chunk_duration
                     in \<lparr>c_start = chunk_start, c_end = chunk_end, c_text = chunk\<rparr>)
                  (enumerate 0 chunks))"

text \<open>
  \<open>transcribe_audio\<close>, given what \<open>model.transcribe\<close> returned (the segments and the
  detected language).
\<close>

definition transcribe_audio :: "whisper_segment list \<Rightarrow> string \<Rightarrow> transcript" where
  "transcribe_audio segments language =
     \<lparr>t_text = join '' '' (map (\<lambda>segment. strip (seg_text segment)) segments),
      t_segments = concat (map segment_chunks segments),
      t_language = language\<rparr>"

definition format_timestamp_ass :: "real \<Rightarrow> string" where
  "format_timestamp_ass seconds =
     (let hours = py_int (py_floordiv seconds 3600);
          minutes = py_int (py_floordiv (py_mod seconds 3600) 60);
          secs = py_mod seconds 60
      in str_int hours @ '':'' @ fmt_02d minutes @ '':'' @ fmt_05_2f secs)"

section \<open>Overlay compositor (modules/video\_overlay.py)\<close>

text \<open>
  The timing block of \<open>apply_video_overlay_smart\<close>: from the timing mode, the requested
  start and end (\<open>None\<close> when no end is given) and the two probed durations to
  \<open>(actual_start, actual_end)\<close>, the end clamped by \<open>min\<close>.
\<close>

definition overlay_window :: "string \<Rightarrow> real \<Rightarrow> real option \<Rightarrow> real \<Rightarrow> real \<Rightarrow> real \<times> real" where
  "overlay_window timing_mode start_time end_time main_duration overlay_duration =
     (let (actual_start, actual_end) =
            (if timing_mode = ''full_duration'' then (0, main_duration)
             else if timing_mode = ''overlay_duration'' then (start_time, start_time + overlay_duration)
             else (start_time, (case end_time of Some e \<Rightarrow> e | None \<Rightarrow> main_duration)));
          actual_end = min actual_end main_duration
      in (actual_start, actual_end))"

section \<open>The world outside: files and subprocesses\<close>

text \<open>
  A path is its parent directory and its final component (\<open>Path(p).parent\<close> and
  \<open>Path(p).name\<close>); \<open>parent / name\<close> is the constructor.
\<close>

datatype path = Path (parent: string) (name: string)

definition str_path :: "path \<Rightarrow> string" where
  "str_path p = parent p @ ''/'' @ name p"

text \<open>
  Every subprocess the code launches and every file operation it performs is appended
  to a trace. The ffmpeg commands carry the paths and the quality preset they are built
  from; the encoder flags a preset selects are left out. \<open>Unlink p\<close> is an unlink that
  removed the file, \<open>UnlinkFailed p\<close> one that raised.
\<close>

datatype event =
    RunEncoders
  | ProbeDuration path
  | ProbeResolution path
  | Scale path path string
  | Concat path path
  | Trim path real path
  | Combine path path path string
  | Overlay path path path real real
  | WriteLines path "string list"
  | Unlink path
  | UnlinkFailed path
  | ThreadPool int

record world =
  files :: "path set"
  trace :: "event list"

definition emit :: "event \<Rightarrow> world \<Rightarrow> world" where
  "emit ev w = w\<lparr>trace := trace w @ [ev]\<rparr>"

text \<open>
  What \<open>subprocess.run\<close> and \<open>open\<close> raise by themselves, and the exceptions of the
  code. \<open>str_exn\<close> is \<open>str(e)\<close>.
\<close>

datatype os_error = TimeoutExpired nat | OSError nat string

datatype exn =
    RuntimeError string
  | ZeroDivisionError
  | ValueError string
  | FileNotFoundError path
  | OsError os_error

definition str_exn :: "exn \<Rightarrow> string" where
  "str_exn e =
     (case e of
        RuntimeError m \<Rightarrow> m
      | ZeroDivisionError \<Rightarrow> ''float division by zero''
      | ValueError m \<Rightarrow> m
      | FileNotFoundError p \<Rightarrow> ''[Errno 2] No such file or directory: '' @ str_path p
      | OsError (TimeoutExpired t) \<Rightarrow> ''Command timed out after '' @ str_nat t @ '' seconds''
      | OsError (OSError n m) \<Rightarrow> ''[Errno '' @ str_nat n @ ''] '' @ m)"

text \<open>
  The outcome of one \<open>subprocess.run(..., check=False)\<close>: it raises, or it completes
  with a return code, the text of stderr and what the code reads from stdout (already
  parsed: \<open>None\<close> when the parse fails).
\<close>

datatype 'a proc = Raised os_error | Completed int string 'a

text \<open>
  The environment decides every outcome from the state of the world at the call, so an
  outcome may depend on everything that happened before. \<open>completion\<close> drives the
  order in which the futures of a thread pool complete.
\<close>

record env =
  encoders_out :: "world \<Rightarrow> string proc"
  duration_out :: "world \<Rightarrow> path \<Rightarrow> real option proc"
  resolution_out :: "world \<Rightarrow> path \<Rightarrow> (int \<times> int) option proc"
  ffmpeg_out :: "world \<Rightarrow> event \<Rightarrow> unit proc"
  open_out :: "world \<Rightarrow> path \<Rightarrow> os_error option"
  unlink_out :: "world \<Rightarrow> path \<Rightarrow> os_error option"
  clock :: "world \<Rightarrow> real"
  completion :: "nat list"

type_synonym 'a io = "world \<Rightarrow> (exn + 'a) \<times> world"

definition io_return :: "'a \<Rightarrow> 'a io" where
  "io_return x w = (Inr x, w)"

definition io_raise :: "exn \<Rightarrow> 'a io" where
  "io_raise e w = (Inl e, w)"

definition io_bind :: "'a io \<Rightarrow> ('a \<Rightarrow> 'b io) \<Rightarrow> 'b io" where
  "io_bind m f w = (case m w of (Inl e, w') \<Rightarrow> (Inl e, w') | (Inr x, w') \<Rightarrow> f x w')"

text \<open>\<open>try: m except Exception: pass\<close>\<close>

definition try_pass :: "unit io \<Rightarrow> unit io" where
  "try_pass m w = (case m w of (Inl e, w') \<Rightarrow> (Inr (), w') | (Inr x, w') \<Rightarrow> (Inr (), w'))"

text \<open>
  One ffmpeg run followed by the check of its return code: a non-zero code raises
  \<open>RuntimeError\<close> with the given prefix and stderr; a zero code leaves the output file
  on disk. A failed run is taken to leave no file.
\<close>

definition run_ffmpeg :: "env \<Rightarrow> event \<Rightarrow> path \<Rightarrow> string \<Rightarrow> unit io" where
  "run_ffmpeg env cmd out msg w =
     (case ffmpeg_out env w cmd of
        Raised e \<Rightarrow> (Inl (OsError e), emit cmd w)
      | Completed returncode stderr u \<Rightarrow>
          if returncode \<noteq> 0 then (Inl (RuntimeError (msg @ stderr)), emit cmd w)
          else (Inr (), (emit cmd w)\<lparr>files := insert out (files w)\<rparr>))"

text \<open>
  \<open>Path.unlink()\<close>: it raises when the environment says so (no permission, a file that
  another task working in the same directory has removed in the meantime) and when the
  file is not there; otherwise the file is removed. The set \<open>files\<close> follows what the
  modelled call itself creates and removes.
\<close>

definition unlink :: "env \<Rightarrow> path \<Rightarrow> unit io" where
  "unlink env p w =
     (case unlink_out env w p of
        Some e \<Rightarrow> (Inl (OsError e), emit (UnlinkFailed p) w)
      | None \<Rightarrow>
          if p \<in> files w then (Inr (), (emit (Unlink p) w)\<lparr>files := files w - {p}\<rparr>)
          else (Inl (FileNotFoundError p), emit (UnlinkFailed p) w))"

text \<open>\<open>with open(p, "w") as f:\<close> followed by one \<open>f.write\<close> per line.\<close>

definition write_lines :: "env \<Rightarrow> path \<Rightarrow> string list \<Rightarrow> unit io" where
  "write_lines env p ls w =
     (case open_out env w p of
        Some e \<Rightarrow> (Inl (OsError e), w)
      | None \<Rightarrow> (Inr (), (emit (WriteLines p ls) w)\<lparr>files := insert p (files w)\<rparr>))"

section \<open>Video processor (modules/video\_processor.py)\<close>

fun contains :: "string \<Rightarrow> string \<Rightarrow> bool" where
  "contains s [] = (s = [])"
| "contains s (c # cs) = (prefix s (c # cs) \<or> contains s cs)"

definition check_gpu_available :: "env \<Rightarrow> world \<Rightarrow> bool \<times> world" where
  "check_gpu_available env w =
     (case encoders_out env w of
        Raised e \<Rightarrow> (False, emit RunEncoders w)
      | Completed returncode stderr stdout \<Rightarrow> (contains ''h264_nvenc'' stdout, emit RunEncoders w))"

definition get_media_duration :: "env \<Rightarrow> path \<Rightarrow> real io" where
  "get_media_duration env p w =
     (case duration_out env w p of
        Raised e \<Rightarrow> (Inl (OsError e), emit (ProbeDuration p) w)
      | Completed returncode stderr stdout \<Rightarrow>
          if returncode \<noteq> 0
          then (Inl (RuntimeError (''ffprobe error: '' @ stderr)), emit (ProbeDuration p) w)
          else (case stdout of
                  None \<Rightarrow> (Inl (RuntimeError ''Unable to parse duration''), emit (ProbeDuration p) w)
                | Some d \<Rightarrow> (Inr d, emit (ProbeDuration p) w)))"

definition get_video_resolution :: "env \<Rightarrow> path \<Rightarrow> (int \<times> int) io" where
  "get_video_resolution env p w =
     (case resolution_out env w p of
        Raised e \<Rightarrow> (Inl (OsError e), emit (ProbeResolution p) w)
      | Completed returncode stderr stdout \<Rightarrow>
          if returncode \<noteq> 0
          then (Inl (RuntimeError (''ffprobe error getting resolution: '' @ stderr)),
                emit (ProbeResolution p) w)
          else (case stdout of
                  None \<Rightarrow> (Inl (RuntimeError ''Unable to parse video resolution''),
                           emit (ProbeResolution p) w)
                | Some wh \<Rightarrow> (Inr wh, emit (ProbeResolution p) w)))"

definition scale_video_to_1080p :: "env \<Rightarrow> path \<Rightarrow> path \<Rightarrow> string \<Rightarrow> path io" where
  "scale_video_to_1080p env input_path output_path quality_preset =
     io_bind (get_video_resolution env input_path) (\<lambda>(width, height).
       if width = 1920 \<and> height = 1080 then io_return input_path
       else io_bind (run_ffmpeg env (Scale input_path output_path quality_preset) output_path
                       ''GPU video scaling failed: '')
              (\<lambda>_. io_return output_path))"

definition combine_video_audio :: "env \<Rightarrow> path \<Rightarrow> path \<Rightarrow> path \<Rightarrow> string \<Rightarrow> path io" where
  "combine_video_audio env video_path audio_path output_path quality_preset =
     io_bind (run_ffmpeg env (Combine video_path audio_path output_path quality_preset) output_path
                ''GPU video-audio combination failed: '')
       (\<lambda>_. io_return output_path)"

text \<open>
  \<open>loops_needed = int(audio_dur / video_dur) + 1\<close>; the float division raises on a zero
  divisor.
\<close>

definition loops_needed :: "real \<Rightarrow> real \<Rightarrow> int io" where
  "loops_needed audio_dur video_dur =
     (if video_dur = 0 then io_raise ZeroDivisionError
      else io_return (py_int (audio_dur / video_dur) + 1))"

text \<open>
  The lines written to the concat list: one per iteration of \<open>for _ in range(loops_needed)\<close>
  (none for a count below one). Paths are taken as already absolute, so \<open>resolve()\<close>
  changes nothing.
\<close>

definition concat_lines :: "path \<Rightarrow> int \<Rightarrow> string list" where
  "concat_lines processed_video_path loops =
     replicate (nat loops)
       (''file '' @ [CHR 0x27] @ str_path processed_video_path @ [CHR 0x27, CHR 0x0A])"

text \<open>
  The \<open>try\<close> block that ends the looping path: the unlinks run in order and the first
  one that raises ends the block (the \<open>except\<close> only logs a warning).
\<close>

definition cleanup_temporary_files ::
    "env \<Rightarrow> path \<Rightarrow> path \<Rightarrow> path \<Rightarrow> path \<Rightarrow> path \<Rightarrow> unit io" where
  "cleanup_temporary_files env concat_file temp_looped trimmed_video processed_video_path video_path =
     try_pass
       (io_bind (unlink env concat_file) (\<lambda>_.
        io_bind (unlink env temp_looped) (\<lambda>_.
        io_bind (unlink env trimmed_video) (\<lambda>_.
          if processed_video_path \<noteq> video_path
          then unlink env processed_video_path else io_return ()))))"

text \<open>
  The looping path of \<open>loop_video_to_match_audio\<close> once the concat list is written:
  concatenate, trim, combine, clean up, return.
\<close>

definition concat_trim_combine ::
    "env \<Rightarrow> real \<Rightarrow> path \<Rightarrow> path \<Rightarrow> path \<Rightarrow> string \<Rightarrow> path \<Rightarrow> real \<Rightarrow> path \<Rightarrow> (path \<times> real) io" where
  "concat_trim_combine env start_time video_path audio_path output_path quality_preset
       processed_video_path audio_dur concat_file =
     (let temp_looped = Path (parent output_path) ''temp_looped.mp4'' in
      io_bind (run_ffmpeg env (Concat concat_file temp_looped) temp_looped
                 ''Video looping failed: '') (\<lambda>_.
      let trimmed_video = Path (parent output_path) ''temp_trimmed.mp4'' in
      io_bind (run_ffmpeg env (Trim temp_looped audio_dur trimmed_video) trimmed_video
                 ''Video trimming failed: '') (\<lambda>_.
      io_bind (combine_video_audio env trimmed_video audio_path output_path
                 quality_preset) (\<lambda>final_result.
      io_bind (cleanup_temporary_files env concat_file temp_looped trimmed_video
                 processed_video_path video_path) (\<lambda>_.
        (\<lambda>w. (Inr (final_result, clock env w - start_time), w)))))))"

text \<open>
  The body of \<open>loop_video_to_match_audio\<close> once \<open>start_time = time.time()\<close> has been
  read: scale, probe both durations, then combine directly or write the concat list and
  go on with the looping path.
\<close>

definition match_audio_from ::
    "env \<Rightarrow> real \<Rightarrow> path \<Rightarrow> path \<Rightarrow> path \<Rightarrow> string \<Rightarrow> (path \<times> real) io" where
  "match_audio_from env start_time video_path audio_path output_path quality_preset =
     (let scaled_video_path = Path (parent output_path) (''scaled_input_'' @ name video_path)
      in io_bind (scale_video_to_1080p env video_path scaled_video_path quality_preset)
           (\<lambda>processed_video_path.
         io_bind (get_media_duration env processed_video_path) (\<lambda>video_dur.
         io_bind (get_media_duration env audio_path) (\<lambda>audio_dur.
           if audio_dur \<le> video_dur then
             io_bind (combine_video_audio env processed_video_path audio_path output_path
                        quality_preset) (\<lambda>result.
             io_bind (if processed_video_path \<noteq> video_path
                      then try_pass (unlink env processed_video_path) else io_return ()) (\<lambda>_.
               (\<lambda>w. (Inr (result, clock env w - start_time), w))))
           else
             io_bind (loops_needed audio_dur video_dur) (\<lambda>loops.
             let concat_file = Path (parent output_path) ''concat_list.txt'' in
             io_bind (write_lines env concat_file (concat_lines processed_video_path loops)) (\<lambda>_.
               concat_trim_combine env start_time video_path audio_path output_path
                 quality_preset processed_video_path audio_dur concat_file))))))"

definition loop_video_to_match_audio ::
    "env \<Rightarrow> path \<Rightarrow> path \<Rightarrow> path \<Rightarrow> string \<Rightarrow> (path \<times> real) io" where
  "loop_video_to_match_audio env video_path audio_path output_path quality_preset w =
     (let start_time = clock env w
      in match_audio_from env start_time video_path audio_path output_path quality_preset w)"

text \<open>
  A task is a dictionary with the keys \<open>video_path\<close>, \<open>audio_path\<close> and \<open>output_path\<close>,
  and \<open>quality_preset\<close> once the scheduler has prepared it.
\<close>

record task =
  t_video_path :: path
  t_audio_path :: path
  t_output_path :: path
  t_quality_preset :: "string option"

record task_result =
  r_status :: string
  r_output_path :: "path option"
  r_video_path :: path
  r_audio_path :: path
  r_error :: "string option"
  r_processing_time :: real
  r_total_time :: real

record batch_result =
  b_results :: "task_result list"
  b_total_time :: real
  b_successful_count :: int
  b_failed_count :: int
  b_processing_mode :: "string option"

text \<open>
  \<open>process_single_video_task\<close> catches every exception of its body, so it always
  returns a result record.
\<close>

definition process_single_video_task :: "env \<Rightarrow> task \<Rightarrow> world \<Rightarrow> task_result \<times> world" where
  "process_single_video_task env task_data w =
     (let start_time = clock env w;
          video_path = t_video_path task_data;
          audio_path = t_audio_path task_data;
          output_path = t_output_path task_data;
          quality_preset = (case t_quality_preset task_data of
                              None \<Rightarrow> ''high_quality'' | Some q \<Rightarrow> q)
      in case loop_video_to_match_audio env video_path audio_path output_path quality_preset w of
           (Inr (result_path, processing_time), w') \<Rightarrow>
             (\<lparr>r_status = ''success'', r_output_path = Some result_path,
               r_video_path = video_path, r_audio_path = audio_path, r_error = None,
               r_processing_time = processing_time,
               r_total_time = clock env w' - start_time\<rparr>, w')
         | (Inl e, w') \<Rightarrow>
             (\<lparr>r_status = ''failed'', r_output_path = None,
               r_video_path = t_video_path task_data, r_audio_path = t_audio_path task_data,
               r_error = Some (str_exn e), r_processing_time = 0,
               r_total_time = clock env w' - start_time\<rparr>, w'))"

text \<open>
  The thread pool. The event \<open>ThreadPool n\<close> is the call \<open>ThreadPoolExecutor(max_workers=n)\<close>,
  which refuses a size below one.
  Concurrency is not modelled: the submitted tasks run one after the other, in the order
  in which their futures complete, and that order is any permutation of the submission
  order: \<open>as_completed\<close> inserts each future at a position the environment picks.
\<close>

definition thread_pool_executor :: "int \<Rightarrow> unit io" where
  "thread_pool_executor max_workers w =
     (if max_workers \<le> 0
      then (Inl (ValueError ''max_workers must be greater than 0''), emit (ThreadPool max_workers) w)
      else (Inr (), emit (ThreadPool max_workers) w))"

fun as_completed :: "nat list \<Rightarrow> 'a list \<Rightarrow> 'a list" where
  "as_completed ks [] = []"
| "as_completed ks (x # xs) =
     (let ys = as_completed (tl ks) xs;
          k = (case ks of [] \<Rightarrow> 0 | k # _ \<Rightarrow> k mod (length ys + 1))
      in take k ys @ x # drop k ys)"

text \<open>\<open>future.result()\<close>: the value of the worker function, or the exception it raised.\<close>

definition future_result :: "env \<Rightarrow> task \<Rightarrow> task_result io" where
  "future_result env task w =
     (case process_single_video_task env task w of (result, w') \<Rightarrow> (Inr result, w'))"

text \<open>The loop \<open>for future in as_completed(future_to_task)\<close>, with its \<open>try\<close>.\<close>

fun collect_results :: "env \<Rightarrow> task list \<Rightarrow> task_result list \<Rightarrow> world \<Rightarrow> task_result list \<times> world" where
  "collect_results env [] results w = (results, w)"
| "collect_results env (task # futures) results w =
     (case future_result env task w of
        (Inr result, w') \<Rightarrow> collect_results env futures (results @ [result]) w'
      | (Inl e, w') \<Rightarrow>
          collect_results env futures
            (results @ [\<lparr>r_status = ''failed'', r_output_path = None,
                          r_video_path = t_video_path task, r_audio_path = t_audio_path task,
                          r_error = Some (str_exn e), r_processing_time = 0,
                          r_total_time = 0\<rparr>]) w')"

definition gpu_unavailable :: exn where
  "gpu_unavailable =
     RuntimeError ([CHR 0xE2, CHR 0x9D, CHR 0x8C] @
       '' GPU (NVENC) not available! This version requires NVIDIA GPU with CUDA support.'')"

definition process_videos_parallel :: "env \<Rightarrow> task list \<Rightarrow> int \<Rightarrow> string \<Rightarrow> batch_result io" where
  "process_videos_parallel env tasks max_workers quality_preset w =
     (let batch_start_time = clock env w;
          (gpu_available, w1) = check_gpu_available env w
      in if \<not> gpu_available then (Inl gpu_unavailable, w1)
         else
           let max_workers = min max_workers 6;
               prepared_tasks = map (\<lambda>task. task\<lparr>t_quality_preset := Some quality_preset\<rparr>) tasks
           in case thread_pool_executor max_workers w1 of
                (Inl e, w2) \<Rightarrow> (Inl e, w2)
              | (Inr u, w2) \<Rightarrow>
                  let (results, w3) =
                        collect_results env (as_completed (completion env) prepared_tasks) [] w2;
                      total_time = clock env w3 - batch_start_time;
                      successful = int (length (filter (\<lambda>r. r_status r = ''success'') results));
                      failed = int (length results) - successful
                  in (Inr \<lparr>b_results = results, b_total_time = total_time,
                           b_successful_count = successful, b_failed_count = failed,
                           b_processing_mode = None\<rparr>, w3))"

definition process_videos_smart :: "env \<Rightarrow> task list \<Rightarrow> int \<Rightarrow> string \<Rightarrow> batch_result io" where
  "process_videos_smart env tasks max_workers quality_preset w =
     (let batch_start_time = clock env w;
          (gpu_available, w1) = check_gpu_available env w
      in if \<not> gpu_available then (Inl gpu_unavailable, w1)
         else if length tasks = 0 then
           (Inr \<lparr>b_results = [], b_total_time = 0, b_successful_count = 0, b_failed_count = 0,
                 b_processing_mode = Some ''none''\<rparr>, w1)
         else if length tasks = 1 then
           (let task = hd tasks
            in case loop_video_to_match_audio env (t_video_path task) (t_audio_path task)
                      (t_output_path task) quality_preset w1 of
                 (Inr (result_path, processing_time), w2) \<Rightarrow>
                   (let total_time = clock env w2 - batch_start_time
                    in (Inr \<lparr>b_results = [\<lparr>r_status = ''success'', r_output_path = Some result_path,
                                          r_video_path = t_video_path task,
                                          r_audio_path = t_audio_path task, r_error = None,
                                          r_processing_time = processing_time,
                                          r_total_time = total_time\<rparr>],
                             b_total_time = total_time, b_successful_count = 1, b_failed_count = 0,
                             b_processing_mode = Some ''single_gpu''\<rparr>, w2))
               | (Inl e, w2) \<Rightarrow>
                   (let total_time = clock env w2 - batch_start_time
                    in (Inr \<lparr>b_results = [\<lparr>r_status = ''failed'', r_output_path = None,
                                          r_video_path = t_video_path task,
                                          r_audio_path = t_audio_path task,
                                          r_error = Some (str_exn e),
                                          r_processing_time = 0, r_total_time = total_time\<rparr>],
                             b_total_time = total_time, b_successful_count = 0, b_failed_count = 1,
                             b_processing_mode = Some ''single_gpu''\<rparr>, w2)))
         else
           (case process_videos_parallel env tasks max_workers quality_preset w1 of
              (Inl e, w2) \<Rightarrow> (Inl e, w2)
            | (Inr result, w2) \<Rightarrow> (Inr (result\<lparr>b_processing_mode := Some ''parallel_gpu''\<rparr>), w2)))"

section \<open>Overlay compositor, with its probes and its encode\<close>

text \<open>\<open>get_video_duration\<close> of the overlay module is the same code as \<open>get_media_duration\<close>.\<close>

definition get_video_duration :: "env \<Rightarrow> path \<Rightarrow> real io" where
  "get_video_duration env video_path = get_media_duration env video_path"

text \<open>
  Of \<open>_apply_overlay_full_encode\<close> the model keeps the paths and the window that goes into
  the filter \<open>enable='between(t,start,end)'\<close>; position, size, chroma key and audio mapping
  only shape the rest of the command line.
\<close>

definition apply_overlay_full_encode ::
    "env \<Rightarrow> path \<Rightarrow> path \<Rightarrow> path \<Rightarrow> real \<Rightarrow> real \<Rightarrow> path io" where
  "apply_overlay_full_encode env main_video_path overlay_video_path output_path start_time end_time =
     io_bind (run_ffmpeg env (Overlay main_video_path overlay_video_path output_path
                                start_time end_time) output_path ''GPU overlay failed: '')
       (\<lambda>_. io_return output_path)"

definition apply_video_overlay_smart ::
    "env \<Rightarrow> path \<Rightarrow> path \<Rightarrow> path \<Rightarrow> string \<Rightarrow> real \<Rightarrow> real option \<Rightarrow> path io" where
  "apply_video_overlay_smart env main_video_path overlay_video_path output_path timing_mode
       start_time end_time =
     io_bind (get_video_duration env main_video_path) (\<lambda>main_duration.
     io_bind (get_video_duration env overlay_video_path) (\<lambda>overlay_duration.
       case overlay_window timing_mode start_time end_time main_duration overlay_duration of
         (actual_start, actual_end) \<Rightarrow>
           apply_overlay_full_encode env main_video_path overlay_video_path output_path
             actual_start actual_end))"

section \<open>Observing a run\<close>

text \<open>The events a run appended to the trace, from the world before and the world after.\<close>

definition new_events :: "world \<Rightarrow> world \<Rightarrow> event list" where
  "new_events w w' = drop (length (trace w)) (trace w')"

text \<open>The file a command or a write leaves on disk when it succeeds.\<close>

definition created :: "event \<Rightarrow> path option" where
  "created ev =
     (case ev of
        Scale i out q \<Rightarrow> Some out
      | Concat l out \<Rightarrow> Some out
      | Trim i t out \<Rightarrow> Some out
      | Combine v a out q \<Rightarrow> Some out
      | Overlay m ov out s e \<Rightarrow> Some out
      | WriteLines p ls \<Rightarrow> Some p
      | _ \<Rightarrow> None)"

text \<open>The combine passes, the steps of the looping path, and the writes of a list file.\<close>

definition is_combine :: "event \<Rightarrow> bool" where
  "is_combine ev = (case ev of Combine v a out q \<Rightarrow> True | _ \<Rightarrow> False)"

definition is_loop_step :: "event \<Rightarrow> bool" where
  "is_loop_step ev =
     (case ev of WriteLines p ls \<Rightarrow> True | Concat l out \<Rightarrow> True | Trim i t out \<Rightarrow> True | _ \<Rightarrow> False)"

definition is_write :: "event \<Rightarrow> bool" where
  "is_write ev = (case ev of WriteLines p ls \<Rightarrow> True | _ \<Rightarrow> False)"

text \<open>
  The calls of the thread pool constructor, and the events a task can append: everything
  but the encoder probe and the pool.
\<close>

definition is_pool :: "event \<Rightarrow> bool" where
  "is_pool ev = (case ev of ThreadPool n \<Rightarrow> True | _ \<Rightarrow> False)"

definition task_event :: "event \<Rightarrow> bool" where
  "task_event ev = (case ev of ThreadPool n \<Rightarrow> False | RunEncoders \<Rightarrow> False | _ \<Rightarrow> True)"

text \<open>
  A result record is either a success with an output path and no error, or a failure with
  no output path and a non-empty error message.
\<close>

definition result_ok :: "task_result \<Rightarrow> bool" where
  "result_ok r =
     (if r_status r = ''success'' then r_output_path r \<noteq> None \<and> r_error r = None
      else r_status r = ''failed'' \<and> r_output_path r = None \<and>
           (case r_error r of None \<Rightarrow> False | Some m \<Rightarrow> m \<noteq> []))"

text \<open>What identifies the task in a result record, and in the task itself.\<close>

definition result_key :: "task_result \<Rightarrow> path \<times> path" where
  "result_key r = (r_video_path r, r_audio_path r)"

definition task_key :: "task \<Rightarrow> path \<times> path" where
  "task_key t = (t_video_path t, t_audio_path t)"

text \<open>
  Two properties of an action, for every world it may start in: it only appends to the
  trace, and every event it appends satisfies \<open>P\<close>; every exception it raises has a
  non-empty \<open>str\<close>.
\<close>

definition emits :: "(event \<Rightarrow> bool) \<Rightarrow> 'a io \<Rightarrow> bool" where
  "emits P m = (\<forall>w. \<exists>es. trace (snd (m w)) = trace w @ es \<and> list_all P es)"

definition raises_str :: "'a io \<Rightarrow> bool" where
  "raises_str m = (\<forall>w e w'. m w = (Inl e, w') \<longrightarrow> str_exn e \<noteq> [])"

text \<open>
  A successful and a failed unlink, and an event that is neither. \<open>unlinked_after ev p es\<close>:
  the event \<open>ev\<close> occurs in \<open>es\<close> and a successful unlink of \<open>p\<close> occurs later.
\<close>

definition is_unlink :: "event \<Rightarrow> bool" where
  "is_unlink ev = (case ev of Unlink p \<Rightarrow> True | _ \<Rightarrow> False)"

definition is_unlink_failed :: "event \<Rightarrow> bool" where
  "is_unlink_failed ev = (case ev of UnlinkFailed p \<Rightarrow> True | _ \<Rightarrow> False)"

definition no_unlink :: "event \<Rightarrow> bool" where
  "no_unlink ev = (\<not> is_unlink ev \<and> \<not> is_unlink_failed ev)"

fun unlinked_after :: "event \<Rightarrow> path \<Rightarrow> event list \<Rightarrow> bool" where
  "unlinked_after ev p [] = False"
| "unlinked_after ev p (x # xs) = ((x = ev \<and> Unlink p \<in> set xs) \<or> unlinked_after ev p xs)"

text \<open>
  Three properties of an action, for reasoning about what a raise leaves behind:
  \<open>keeps m\<close>, the action attempts no unlink and removes no file, however it ends;
  \<open>never_raises m\<close>, it always returns; \<open>raises_untouched m\<close>, whenever it raises it
  has attempted no unlink and removed no file.
\<close>

definition keeps :: "'a io \<Rightarrow> bool" where
  "keeps m = (\<forall>w. \<exists>es. trace (snd (m w)) = trace w @ es \<and> list_all no_unlink es \<and>
                        files w \<subseteq> files (snd (m w)))"

definition never_raises :: "'a io \<Rightarrow> bool" where
  "never_raises m = (\<forall>w. \<exists>x. fst (m w) = Inr x)"

definition raises_untouched :: "'a io \<Rightarrow> bool" where
  "raises_untouched m =
     (\<forall>w e w'. m w = (Inl e, w') \<longrightarrow>
        (\<exists>es. trace w' = trace w @ es \<and> list_all no_unlink es) \<and> files w \<subseteq> files w')"

section \<open>Concrete inputs\<close>

text \<open>
  An environment in which the hardware encoder is advertised, every file can be opened
  and unlinked,
  the clock counts the events so far and the outcomes of the probes and of ffmpeg depend
  on the path or the command only.
\<close>

definition demo_env ::
    "(path \<Rightarrow> (int \<times> int) option proc) \<Rightarrow> (path \<Rightarrow> real option proc) \<Rightarrow> (event \<Rightarrow> unit proc) \<Rightarrow> env" where
  "demo_env res dur ff =
     \<lparr>encoders_out = (\<lambda>w. Completed 0 [] '' V....D h264_nvenc NVIDIA NVENC H.264 encoder''),
      duration_out = (\<lambda>w. dur), resolution_out = (\<lambda>w. res), ffmpeg_out = (\<lambda>w. ff),
      open_out = (\<lambda>w p. None), unlink_out = (\<lambda>w p. None), clock = (\<lambda>w. real (length (trace w))), completion = []\<rparr>"

definition demo_world :: world where
  "demo_world =
     \<lparr>files = {Path ''in'' ''bg.mp4'', Path ''in'' ''voice.mp3'', Path ''in'' ''ovr.mp4''},
      trace = []\<rparr>"

text \<open>
  Environments for one run of the duration matcher: every video has the given resolution
  and duration, the audio \<open>in/voice.mp3\<close> its own duration; ffmpeg always succeeds, or
  fails on the concatenation only.
\<close>

definition ffmpeg_ok :: "event \<Rightarrow> unit proc" where
  "ffmpeg_ok cmd = Completed 0 [] ()"

definition concat_fails :: "event \<Rightarrow> unit proc" where
  "concat_fails cmd =
     (case cmd of
        Concat l out \<Rightarrow> Completed 1 ''Invalid data found when processing input'' ()
      | _ \<Rightarrow> Completed 0 [] ())"

definition durations_env :: "int \<times> int \<Rightarrow> real \<Rightarrow> real \<Rightarrow> (event \<Rightarrow> unit proc) \<Rightarrow> env" where
  "durations_env res video_dur audio_dur ff =
     demo_env (\<lambda>p. Completed 0 [] (Some res))
       (\<lambda>p. Completed 0 [] (Some (if p = Path ''in'' ''voice.mp3'' then audio_dur else video_dur)))
       ff"

text \<open>An environment in which the unlink of one path is refused.\<close>

definition unlink_denied :: "path \<Rightarrow> env \<Rightarrow> env" where
  "unlink_denied q env =
     env\<lparr>unlink_out := (\<lambda>w p. if p = q then Some (OSError 13 ''Permission denied'') else None)\<rparr>"

text \<open>
  A batch of three tasks, the second with an audio file that is not there; the futures
  complete in the order second, first, third.
\<close>

definition batch_env :: env where
  "batch_env =
     (demo_env (\<lambda>p. Completed 0 [] (Some (1920, 1080)))
        (\<lambda>p. if p = Path ''in'' ''missing.mp3'' then Completed 1 ''No such file or directory'' None
              else if p = Path ''in'' ''voice.mp3'' then Completed 0 [] (Some 25)
              else Completed 0 [] (Some 30))
        (\<lambda>cmd. Completed 0 [] ()))\<lparr>completion := [1, 0, 0]\<rparr>"

definition demo_task :: "string \<Rightarrow> string \<Rightarrow> task" where
  "demo_task audio out =
     \<lparr>t_video_path = Path ''in'' ''bg.mp4'', t_audio_path = Path ''in'' audio,
      t_output_path = Path ''out'' out, t_quality_preset = None\<rparr>"

definition demo_tasks :: "task list" where
  "demo_tasks = [demo_task ''voice.mp3'' ''a.mp4'', demo_task ''missing.mp3'' ''b.mp4'',
                 demo_task ''voice.mp3'' ''c.mp4'']"

text \<open>An overlay of 15 s on a primary video of 60 s, and a segment of seven words.\<close>

definition overlay_env :: env where
  "overlay_env = demo_env (\<lambda>p. Completed 0 [] (Some (1920, 1080)))
                   (\<lambda>p. Completed 0 [] (Some (if p = Path ''in'' ''ovr.mp4'' then 15 else 60)))
                   (\<lambda>cmd. Completed 0 [] ())"

definition demo_segment :: whisper_segment where
  "demo_segment = \<lparr>seg_start = 0, seg_end = 6, seg_text = '' a b c d e f g ''\<rparr>"

section \<open>Properties of the caption generator\<close>

lemma split_acc_nonempty:
  "cur \<noteq> [] \<or> (\<exists>c \<in> set s. \<not> isspace c) \<Longrightarrow> split_acc cur s \<noteq> []"
  by (induction cur s rule: split_acc.induct) auto

lemma strip_nonempty_has_word:
  assumes "strip s \<noteq> []"
  shows "py_split (strip s) \<noteq> []"
proof -
  let ?u = "dropWhile isspace (rev (dropWhile isspace s))"
  have u: "?u \<noteq> []" using assms by (simp add: strip_def)
  then have "\<not> isspace (hd ?u)" by (rule hd_dropWhile)
  moreover have "hd ?u \<in> set (strip s)"
    using u by (simp add: strip_def)
  ultimately show ?thesis
    unfolding py_split_def by (intro split_acc_nonempty) blast
qed

lemma chunk_loop_nonempty:
  "chunk_loop m chunks cur ws = (chunks', cur') \<Longrightarrow> chunks \<noteq> [] \<or> cur \<noteq> [] \<or> ws \<noteq> []
   \<Longrightarrow> chunks' \<noteq> [] \<or> cur' \<noteq> []"
  by (induction m chunks cur ws rule: chunk_loop.induct) (auto simp: Let_def split: if_splits)

lemma chunk_text_by_words_nonempty:
  "py_split text \<noteq> [] \<Longrightarrow> chunk_text_by_words text m \<noteq> []"
  using chunk_loop_nonempty [of m "[]" "[]" "py_split text"]
  by (auto simp: chunk_text_by_words_def Let_def split: prod.splits)

lemma segment_chunks_nth:
  assumes "chunks = chunk_text_by_words (strip (seg_text segment)) 5" "i < length chunks"
  shows "segment_chunks segment ! i =
           \<lparr>c_start = seg_start segment + real i * ((seg_end segment - seg_start segment) / real (length chunks)),
            c_end = seg_start segment + real i * ((seg_end segment - seg_start segment) / real (length chunks))
                      + (seg_end segment - seg_start segment) / real (length chunks),
            c_text = chunks ! i\<rparr>"
  using assms by (auto simp: segment_chunks_def Let_def nth_enumerate_eq)

lemma segment_chunks_length:
  "length (segment_chunks segment) = length (chunk_text_by_words (strip (seg_text segment)) 5)"
  by (simp add: segment_chunks_def Let_def)

lemma sum_list_const: "(\<And>x. x \<in> set xs \<Longrightarrow> f x = (d::real)) \<Longrightarrow> sum_list (map f xs) = real (length xs) * d"
  by (induction xs) (auto simp: algebra_simps)

text \<open>
  C4. For a raw segment whose stripped text is not empty, chunking produces \<open>n > 0\<close>
  captions, one per word group; caption \<open>i\<close> spans from \<open>start + i * d\<close> to
  \<open>start + (i + 1) * d\<close> with \<open>d = (end - start) / n\<close>, so every caption lasts \<open>d\<close>,
  the durations sum to the span of the segment and \<open>n * d\<close> is that span. Arithmetic is
  exact here, so the sums agree exactly rather than up to a tolerance.
\<close>

theorem chunk_spans_partition_segment:
  assumes "strip (seg_text segment) \<noteq> []"
  shows "0 < length (segment_chunks segment) \<and>
         length (segment_chunks segment) = length (chunk_text_by_words (strip (seg_text segment)) 5) \<and>
         (\<forall>i < length (segment_chunks segment).
            c_start (segment_chunks segment ! i) =
              seg_start segment
                + real i * ((seg_end segment - seg_start segment) / real (length (segment_chunks segment))) \<and>
            c_end (segment_chunks segment ! i) =
              seg_start segment
                + real (i + 1) * ((seg_end segment - seg_start segment) / real (length (segment_chunks segment))) \<and>
            c_end (segment_chunks segment ! i) - c_start (segment_chunks segment ! i) =
              (seg_end segment - seg_start segment) / real (length (segment_chunks segment))) \<and>
         sum_list (map (\<lambda>c. c_end c - c_start c) (segment_chunks segment)) =
           seg_end segment - seg_start segment \<and>
         real (length (segment_chunks segment))
           * ((seg_end segment - seg_start segment) / real (length (segment_chunks segment))) =
           seg_end segment - seg_start segment"
proof -
  let ?cs = "segment_chunks segment"
  let ?chunks = "chunk_text_by_words (strip (seg_text segment)) 5"
  define d where "d = (seg_end segment - seg_start segment) / real (length ?cs)"
  have len: "length ?cs = length ?chunks" by (rule segment_chunks_length)
  have pos: "0 < length ?cs"
    using chunk_text_by_words_nonempty [OF strip_nonempty_has_word [OF assms]] len by simp
  have nth: "c_start (?cs ! i) = seg_start segment + real i * d \<and>
             c_end (?cs ! i) = seg_start segment + real (i + 1) * d \<and>
             c_end (?cs ! i) - c_start (?cs ! i) = d" if "i < length ?cs" for i
  proof -
    have "?cs ! i = \<lparr>c_start = seg_start segment + real i * d,
                      c_end = seg_start segment + real i * d + d, c_text = ?chunks ! i\<rparr>"
      using that segment_chunks_nth [OF refl, of i segment] len by (simp add: d_def)
    then show ?thesis by (simp add: distrib_right)
  qed
  have each: "c_end c - c_start c = d" if "c \<in> set ?cs" for c
    using that nth by (auto simp: in_set_conv_nth)
  have total: "real (length ?cs) * d = seg_end segment - seg_start segment"
    using pos by (simp add: d_def)
  have "sum_list (map (\<lambda>c. c_end c - c_start c) ?cs) = real (length ?cs) * d"
    by (rule sum_list_const) (rule each)
  with total have sum: "sum_list (map (\<lambda>c. c_end c - c_start c) ?cs) = seg_end segment - seg_start segment"
    by simp
  show ?thesis
    using pos len nth sum total unfolding d_def by blast
qed

lemma demo_chunks: "chunk_text_by_words (strip (seg_text demo_segment)) 5 = [''a b c d e'', ''f g'']"
  by (simp add: demo_segment_def strip_def isspace_def chunk_text_by_words_def py_split_def Let_def)

lemma demo_segment_chunks: "segment_chunks demo_segment = [\<lparr>c_start = 0, c_end = 3, c_text = ''a b c d e''\<rparr>, \<lparr>c_start = 3, c_end = 6, c_text = ''f g''\<rparr>]"
  by (simp add: segment_chunks_def demo_chunks Let_def enumerate_eq_zip upt_rec) (simp add: demo_segment_def)

theorem chunk_spans_partition_segment_witness:
  "strip (seg_text demo_segment) \<noteq> [] \<and>
   segment_chunks demo_segment =
     [\<lparr>c_start = 0, c_end = 3, c_text = ''a b c d e''\<rparr>, \<lparr>c_start = 3, c_end = 6, c_text = ''f g''\<rparr>] \<and>
   sum_list (map (\<lambda>c. c_end c - c_start c) (segment_chunks demo_segment)) = 6"
proof -
  have h: "strip (seg_text demo_segment) \<noteq> []"
    by (simp add: demo_segment_def strip_def isspace_def)
  show ?thesis
    using h chunk_spans_partition_segment [OF h] demo_segment_chunks
    by (simp add: demo_segment_def)
qed

lemmas fmt_defs = format_timestamp_ass_def py_int_def py_floordiv_def py_mod_def str_int_def
  fmt_02d_def fmt_05_2f_def round_half_even_def zfill_def digit_char_def Let_def

text \<open>
  C5. The timestamp formatter renders \<open>H:MM:SS.cc\<close>; 3661.25 seconds give \<open>1:01:01.25\<close>,
  and 59.999 seconds should give \<open>0:00:59.99\<close> or \<open>0:01:00.00\<close>. The code rounds the
  seconds field after it has split off the minutes and never carries: 59.999 gives
  \<open>0:00:60.00\<close> and 3599.999 gives \<open>0:59:60.00\<close>, neither of the two strings allowed
  and not a timestamp of the format. The other boundary values are rendered as expected.
\<close>

theorem format_timestamp_ass_seconds_field_60:
  "format_timestamp_ass (59999 / 1000) = ''0:00:60.00'' \<and>
   format_timestamp_ass (3599999 / 1000) = ''0:59:60.00'' \<and>
   format_timestamp_ass (366125 / 100) = ''1:01:01.25'' \<and>
   format_timestamp_ass 0 = ''0:00:00.00'' \<and>
   format_timestamp_ass 3600 = ''1:00:00.00''"
  by (simp add: fmt_defs str_nat.simps)

section \<open>Properties of the overlay compositor\<close>

text \<open>
  C6. In every timing mode the resolved end of the overlay window is at most the duration
  of the primary video; a requested end of 90 on a primary of 60 resolves to 60, and
  \<open>custom_time\<close> with no end resolves to the primary duration. When both probes of
  \<open>apply_video_overlay_smart\<close> succeed, the one encode it launches carries that clamped
  end.
\<close>

theorem overlay_window_end_clamped:
  "snd (overlay_window timing_mode start_time end_time main_duration overlay_duration) \<le> main_duration \<and>
   snd (overlay_window ''custom_time'' start_time (Some 90) 60 overlay_duration) = 60 \<and>
   snd (overlay_window ''custom_time'' start_time None main_duration overlay_duration) = main_duration \<and>
   (get_video_duration env main_video_path w = (Inr main_duration, w1) \<longrightarrow>
    get_video_duration env overlay_video_path w1 = (Inr overlay_duration, w2) \<longrightarrow>
    (\<exists>actual_start actual_end.
       new_events w2 (snd (apply_video_overlay_smart env main_video_path overlay_video_path
                             output_path timing_mode start_time end_time w)) =
         [Overlay main_video_path overlay_video_path output_path actual_start actual_end] \<and>
       actual_end \<le> main_duration))"
proof -
  have a: "snd (overlay_window timing_mode start_time end_time main_duration overlay_duration) \<le> main_duration"
    by (simp add: overlay_window_def Let_def split: option.split)
  have b: "snd (overlay_window ''custom_time'' start_time (Some 90) 60 overlay_duration) = 60"
    by (simp add: overlay_window_def)
  have c: "snd (overlay_window ''custom_time'' start_time None main_duration overlay_duration) = main_duration"
    by (simp add: overlay_window_def)
  have d: "\<exists>actual_start actual_end.
       new_events w2 (snd (apply_video_overlay_smart env main_video_path overlay_video_path
                             output_path timing_mode start_time end_time w)) =
         [Overlay main_video_path overlay_video_path output_path actual_start actual_end] \<and>
       actual_end \<le> main_duration"
    if h1: "get_video_duration env main_video_path w = (Inr main_duration, w1)"
    and h2: "get_video_duration env overlay_video_path w1 = (Inr overlay_duration, w2)"
  proof -
    obtain s e where win: "overlay_window timing_mode start_time end_time main_duration overlay_duration = (s, e)"
      by (cases "overlay_window timing_mode start_time end_time main_duration overlay_duration")
    have "e \<le> main_duration" using a win by simp
    moreover have "new_events w2 (snd (apply_video_overlay_smart env main_video_path overlay_video_path
                             output_path timing_mode start_time end_time w)) =
         [Overlay main_video_path overlay_video_path output_path s e]"
      by (simp add: apply_video_overlay_smart_def h1 h2 win
            apply_overlay_full_encode_def new_events_def io_bind_def io_return_def
            run_ffmpeg_def emit_def split: proc.split)
    ultimately show ?thesis by blast
  qed
  from a b c d show ?thesis by blast
qed

theorem overlay_window_end_clamped_witness:
  "get_video_duration overlay_env (Path ''in'' ''bg.mp4'') demo_world
     = (Inr 60, emit (ProbeDuration (Path ''in'' ''bg.mp4'')) demo_world) \<and>
   get_video_duration overlay_env (Path ''in'' ''ovr.mp4'') (emit (ProbeDuration (Path ''in'' ''bg.mp4'')) demo_world)
     = (Inr 15, emit (ProbeDuration (Path ''in'' ''ovr.mp4'')) (emit (ProbeDuration (Path ''in'' ''bg.mp4'')) demo_world)) \<and>
   new_events (emit (ProbeDuration (Path ''in'' ''ovr.mp4'')) (emit (ProbeDuration (Path ''in'' ''bg.mp4'')) demo_world))
     (snd (apply_video_overlay_smart overlay_env (Path ''in'' ''bg.mp4'') (Path ''in'' ''ovr.mp4'')
             (Path ''out'' ''final.mp4'') ''custom_time'' 5 (Some 90) demo_world))
     = [Overlay (Path ''in'' ''bg.mp4'') (Path ''in'' ''ovr.mp4'') (Path ''out'' ''final.mp4'') 5 60]"
proof -
  have h1: "get_video_duration overlay_env (Path ''in'' ''bg.mp4'') demo_world
     = (Inr 60, emit (ProbeDuration (Path ''in'' ''bg.mp4'')) demo_world)"
    by (simp add: get_video_duration_def get_media_duration_def overlay_env_def demo_env_def)
  have h2: "get_video_duration overlay_env (Path ''in'' ''ovr.mp4'') (emit (ProbeDuration (Path ''in'' ''bg.mp4'')) demo_world)
     = (Inr 15, emit (ProbeDuration (Path ''in'' ''ovr.mp4'')) (emit (ProbeDuration (Path ''in'' ''bg.mp4'')) demo_world))"
    by (simp add: get_video_duration_def get_media_duration_def overlay_env_def demo_env_def)
  have ev: "new_events (emit (ProbeDuration (Path ''in'' ''ovr.mp4'')) (emit (ProbeDuration (Path ''in'' ''bg.mp4'')) demo_world))
     (snd (apply_video_overlay_smart overlay_env (Path ''in'' ''bg.mp4'') (Path ''in'' ''ovr.mp4'')
             (Path ''out'' ''final.mp4'') ''custom_time'' 5 (Some 90) demo_world))
     = [Overlay (Path ''in'' ''bg.mp4'') (Path ''in'' ''ovr.mp4'') (Path ''out'' ''final.mp4'') 5 60]"
    by (simp add: apply_video_overlay_smart_def get_video_duration_def get_media_duration_def
          overlay_window_def apply_overlay_full_encode_def new_events_def io_bind_def io_return_def
          run_ffmpeg_def emit_def overlay_env_def demo_env_def demo_world_def)
  from overlay_window_end_clamped [of "''custom_time''" 5 "Some 90" 60 15 overlay_env
        "Path ''in'' ''bg.mp4''" demo_world "emit (ProbeDuration (Path ''in'' ''bg.mp4'')) demo_world"
        "Path ''in'' ''ovr.mp4''"
        "emit (ProbeDuration (Path ''in'' ''ovr.mp4'')) (emit (ProbeDuration (Path ''in'' ''bg.mp4'')) demo_world)"
        "Path ''out'' ''final.mp4''"]
    h1 h2 ev
  show ?thesis by simp
qed

section \<open>Actions and their traces\<close>

lemma emitsI: "(\<And>w. \<exists>es. trace (snd (m w)) = trace w @ es \<and> list_all P es) \<Longrightarrow> emits P m"
  by (simp add: emits_def)

lemma emitsD: "emits P m \<Longrightarrow> \<exists>es. trace (snd (m w)) = trace w @ es \<and> list_all P es"
  by (simp add: emits_def)

lemma emits_return: "emits P (io_return x)"
  by (simp add: emits_def io_return_def)

lemma emits_raise: "emits P (io_raise e)"
  by (simp add: emits_def io_raise_def)

lemma emits_result: "emits P (\<lambda>w. (f w, w))"
  by (simp add: emits_def)

lemma emits_bind:
  assumes "emits P m" "\<And>x. emits P (f x)"
  shows "emits P (io_bind m f)"
proof (rule emitsI)
  fix w
  obtain r w1 where m: "m w = (r, w1)" by (cases "m w")
  from emitsD [OF assms(1), of w] m obtain es where es: "trace w1 = trace w @ es" "list_all P es"
    by auto
  show "\<exists>es. trace (snd (io_bind m f w)) = trace w @ es \<and> list_all P es"
  proof (cases r)
    case (Inl e)
    with m es show ?thesis by (auto simp: io_bind_def)
  next
    case (Inr x)
    from emitsD [OF assms(2), of x w1] obtain es' where
      "trace (snd (f x w1)) = trace w1 @ es'" "list_all P es'" by auto
    with m es Inr show ?thesis by (auto simp: io_bind_def)
  qed
qed

lemma emits_try_pass: "emits P m \<Longrightarrow> emits P (try_pass m)"
  unfolding emits_def try_pass_def
  by (auto split: prod.split sum.split) (metis snd_conv)+

lemma emits_if: "emits P m \<Longrightarrow> emits P n \<Longrightarrow> emits P (if b then m else n)"
  by simp

lemma emits_run_ffmpeg: "P cmd \<Longrightarrow> emits P (run_ffmpeg env cmd out msg)"
  by (simp add: emits_def run_ffmpeg_def emit_def split: proc.split)

lemma emits_unlink: "P (Unlink p) \<Longrightarrow> P (UnlinkFailed p) \<Longrightarrow> emits P (unlink env p)"
  by (simp add: emits_def unlink_def emit_def split: option.split)

lemma emits_write_lines: "P (WriteLines p ls) \<Longrightarrow> emits P (write_lines env p ls)"
  by (simp add: emits_def write_lines_def emit_def split: option.split)

lemma emits_get_media_duration: "P (ProbeDuration p) \<Longrightarrow> emits P (get_media_duration env p)"
  by (simp add: emits_def get_media_duration_def emit_def split: proc.split option.split)

lemma emits_get_video_resolution: "P (ProbeResolution p) \<Longrightarrow> emits P (get_video_resolution env p)"
  by (simp add: emits_def get_video_resolution_def emit_def split: proc.split option.split)

lemma emits_loops_needed: "emits P (loops_needed a v)"
  by (simp add: loops_needed_def emits_return emits_raise)

lemma emits_scale: "emits task_event (scale_video_to_1080p env i out q)"
  unfolding scale_video_to_1080p_def
  by (intro emits_bind emits_get_video_resolution)
     (auto simp: task_event_def intro!: emits_bind emits_return emits_run_ffmpeg)

lemma emits_combine: "emits task_event (combine_video_audio env v a out q)"
  unfolding combine_video_audio_def
  by (intro emits_bind emits_return emits_run_ffmpeg) (simp add: task_event_def)

lemma emits_cleanup:
  "(\<And>p. P (Unlink p)) \<Longrightarrow> (\<And>p. P (UnlinkFailed p)) \<Longrightarrow>
   emits P (cleanup_temporary_files env c l t p v)"
  unfolding cleanup_temporary_files_def
  by (intro emits_try_pass emits_bind emits_unlink emits_if emits_return)

lemma emits_concat_trim_combine:
  assumes "\<And>l out. P (Concat l out)" "\<And>i t out. P (Trim i t out)"
    "\<And>v a out q. P (Combine v a out q)" "\<And>p. P (Unlink p)" "\<And>p. P (UnlinkFailed p)"
  shows "emits P (concat_trim_combine env t v a out q p d c)"
  unfolding concat_trim_combine_def combine_video_audio_def Let_def
  by (intro emits_bind emits_run_ffmpeg emits_cleanup emits_result emits_return assms)

lemma emits_match_audio_from: "emits task_event (match_audio_from env t v a out q)"
  unfolding match_audio_from_def Let_def
  by (intro emits_bind emits_scale emits_get_media_duration emits_combine emits_loops_needed
        emits_write_lines emits_concat_trim_combine emits_try_pass emits_unlink emits_result
        emits_if emits_return)
     (simp_all add: task_event_def)

lemma emits_loop_video: "emits task_event (loop_video_to_match_audio env v a out q)"
  using emits_match_audio_from [of env _ v a out q]
  by (simp add: emits_def loop_video_to_match_audio_def Let_def)

lemma snd_process_single:
  "snd (process_single_video_task env t w) =
     snd (loop_video_to_match_audio env (t_video_path t) (t_audio_path t) (t_output_path t)
            (case t_quality_preset t of None \<Rightarrow> ''high_quality'' | Some q \<Rightarrow> q) w)"
  by (simp add: process_single_video_task_def Let_def split: prod.split sum.split)

lemma trace_process_single:
  "\<exists>es. trace (snd (process_single_video_task env t w)) = trace w @ es \<and> list_all task_event es"
  unfolding snd_process_single by (rule emitsD [OF emits_loop_video])

lemma trace_collect_results:
  "\<exists>es. trace (snd (collect_results env ts acc w)) = trace w @ es \<and> list_all task_event es"
proof (induction ts arbitrary: acc w)
  case Nil
  then show ?case by simp
next
  case (Cons t ts)
  obtain r w1 where p: "process_single_video_task env t w = (r, w1)"
    by (cases "process_single_video_task env t w")
  from trace_process_single [of env t w] p obtain es1 where
    es1: "trace w1 = trace w @ es1" "list_all task_event es1" by auto
  from Cons.IH [of "acc @ [r]" w1] obtain es2 where
    es2: "trace (snd (collect_results env ts (acc @ [r]) w1)) = trace w1 @ es2" "list_all task_event es2"
    by auto
  from p es1 es2 show ?case by (auto simp: future_result_def)
qed

lemma task_event_not_pool: "list_all task_event es \<Longrightarrow> filter is_pool es = []"
  by (induction es) (auto simp: task_event_def is_pool_def split: event.splits)

lemma snd_check_gpu: "snd (check_gpu_available env w) = emit RunEncoders w"
  by (simp add: check_gpu_available_def split: proc.split)

lemma check_gpu_eq: "check_gpu_available env w = (fst (check_gpu_available env w), emit RunEncoders w)"
  by (metis prod.collapse snd_check_gpu)

section \<open>Exceptions and their messages\<close>

lemma raises_strD: "raises_str m \<Longrightarrow> m w = (Inl e, w') \<Longrightarrow> str_exn e \<noteq> []"
  by (auto simp: raises_str_def)

lemma raises_return: "raises_str (io_return x)"
  by (simp add: raises_str_def io_return_def)

lemma raises_result: "raises_str (\<lambda>w. (Inr (f w), w))"
  by (simp add: raises_str_def)

lemma raises_try_pass: "raises_str (try_pass m)"
  by (auto simp: raises_str_def try_pass_def split: prod.splits sum.splits)

lemma raises_bind:
  assumes "raises_str m" "\<And>x. raises_str (f x)"
  shows "raises_str (io_bind m f)"
  unfolding raises_str_def
proof (intro allI impI)
  fix w e w'
  assume h: "io_bind m f w = (Inl e, w')"
  obtain r w1 where m: "m w = (r, w1)" by (cases "m w")
  show "str_exn e \<noteq> []"
  proof (cases r)
    case (Inl e1)
    with m h have "m w = (Inl e, w')" by (simp add: io_bind_def)
    then show ?thesis by (rule raises_strD [OF assms(1)])
  next
    case (Inr x)
    with m h have "f x w1 = (Inl e, w')" by (simp add: io_bind_def)
    then show ?thesis by (rule raises_strD [OF assms(2)])
  qed
qed

lemma raises_if: "raises_str m \<Longrightarrow> raises_str n \<Longrightarrow> raises_str (if b then m else n)"
  by simp

lemma str_os_error: "str_exn (OsError e) \<noteq> []"
  by (cases e) (simp_all add: str_exn_def)

lemma str_exn_simps:
  "str_exn (RuntimeError m) = m"
  "str_exn ZeroDivisionError = ''float division by zero''"
  "str_exn (ValueError m) = m"
  "str_exn (FileNotFoundError p) = ''[Errno 2] No such file or directory: '' @ str_path p"
  by (simp_all add: str_exn_def)

lemma raises_run_ffmpeg: "msg \<noteq> [] \<Longrightarrow> raises_str (run_ffmpeg env cmd out msg)"
  by (auto simp: raises_str_def run_ffmpeg_def str_os_error str_exn_simps split: proc.splits if_splits)

lemma raises_unlink: "raises_str (unlink env p)"
  by (auto simp: raises_str_def unlink_def str_exn_simps str_os_error split: if_splits option.splits)

lemma raises_write_lines: "raises_str (write_lines env p ls)"
  by (auto simp: raises_str_def write_lines_def str_os_error split: option.splits)

lemma raises_get_media_duration: "raises_str (get_media_duration env p)"
  by (auto simp: raises_str_def get_media_duration_def str_os_error str_exn_simps
        split: proc.splits option.splits if_splits)

lemma raises_get_video_resolution: "raises_str (get_video_resolution env p)"
  by (auto simp: raises_str_def get_video_resolution_def str_os_error str_exn_simps
        split: proc.splits option.splits if_splits)

lemma raises_loops_needed: "raises_str (loops_needed a v)"
  by (auto simp: raises_str_def loops_needed_def io_raise_def io_return_def str_exn_simps
        split: if_splits)

lemma raises_scale: "raises_str (scale_video_to_1080p env i out q)"
  unfolding scale_video_to_1080p_def
  by (intro raises_bind raises_get_video_resolution)
     (auto intro!: raises_bind raises_return raises_run_ffmpeg)

lemma raises_combine: "raises_str (combine_video_audio env v a out q)"
  unfolding combine_video_audio_def
  by (intro raises_bind raises_return raises_run_ffmpeg) simp

lemma raises_concat_trim_combine: "raises_str (concat_trim_combine env t v a out q p d c)"
  unfolding concat_trim_combine_def cleanup_temporary_files_def Let_def
  by (intro raises_bind raises_combine raises_run_ffmpeg raises_try_pass raises_result) simp_all

lemma raises_match_audio_from: "raises_str (match_audio_from env t v a out q)"
  unfolding match_audio_from_def Let_def
  by (intro raises_bind raises_scale raises_get_media_duration raises_combine raises_loops_needed
        raises_write_lines raises_concat_trim_combine raises_try_pass raises_result raises_if
        raises_return)

lemma raises_loop_video: "raises_str (loop_video_to_match_audio env v a out q)"
  using raises_match_audio_from [of env _ v a out q]
  by (simp add: raises_str_def loop_video_to_match_audio_def Let_def)

section \<open>Runs on the concrete inputs\<close>

lemmas run_defs = process_videos_smart_def process_videos_parallel_def check_gpu_available_def
  thread_pool_executor_def future_result_def process_single_video_task_def
  loop_video_to_match_audio_def match_audio_from_def concat_trim_combine_def
  cleanup_temporary_files_def scale_video_to_1080p_def
  get_video_resolution_def get_media_duration_def combine_video_audio_def run_ffmpeg_def
  unlink_def write_lines_def loops_needed_def concat_lines_def try_pass_def
  io_bind_def io_return_def io_raise_def emit_def Let_def

lemmas demo_defs = batch_env_def demo_env_def demo_world_def demo_tasks_def demo_task_def

lemmas env_defs = durations_env_def demo_env_def demo_world_def ffmpeg_ok_def concat_fails_def

lemma demo_gpu:
  "fst (check_gpu_available batch_env w)"
  by (simp add: check_gpu_available_def batch_env_def demo_env_def)

lemma demo_run_fst:
  "fst (process_videos_smart batch_env demo_tasks 20 ''high_quality'' demo_world) =
     Inr \<lparr>b_results =
            [\<lparr>r_status = ''failed'', r_output_path = None,
               r_video_path = Path ''in'' ''bg.mp4'', r_audio_path = Path ''in'' ''missing.mp3'',
               r_error = Some ''ffprobe error: No such file or directory'',
               r_processing_time = 0, r_total_time = 3\<rparr>,
             \<lparr>r_status = ''success'', r_output_path = Some (Path ''out'' ''a.mp4''),
               r_video_path = Path ''in'' ''bg.mp4'', r_audio_path = Path ''in'' ''voice.mp3'',
               r_error = None, r_processing_time = 4, r_total_time = 4\<rparr>,
             \<lparr>r_status = ''success'', r_output_path = Some (Path ''out'' ''c.mp4''),
               r_video_path = Path ''in'' ''bg.mp4'', r_audio_path = Path ''in'' ''voice.mp3'',
               r_error = None, r_processing_time = 4, r_total_time = 4\<rparr>],
           b_total_time = 13, b_successful_count = 2, b_failed_count = 1,
           b_processing_mode = Some ''parallel_gpu''\<rparr>"
  by (simp add: run_defs demo_defs str_exn_simps)

lemma demo_run:
  "process_videos_smart batch_env demo_tasks 20 ''high_quality'' demo_world =
     (Inr \<lparr>b_results =
            [\<lparr>r_status = ''failed'', r_output_path = None,
               r_video_path = Path ''in'' ''bg.mp4'', r_audio_path = Path ''in'' ''missing.mp3'',
               r_error = Some ''ffprobe error: No such file or directory'',
               r_processing_time = 0, r_total_time = 3\<rparr>,
             \<lparr>r_status = ''success'', r_output_path = Some (Path ''out'' ''a.mp4''),
               r_video_path = Path ''in'' ''bg.mp4'', r_audio_path = Path ''in'' ''voice.mp3'',
               r_error = None, r_processing_time = 4, r_total_time = 4\<rparr>,
             \<lparr>r_status = ''success'', r_output_path = Some (Path ''out'' ''c.mp4''),
               r_video_path = Path ''in'' ''bg.mp4'', r_audio_path = Path ''in'' ''voice.mp3'',
               r_error = None, r_processing_time = 4, r_total_time = 4\<rparr>],
           b_total_time = 13, b_successful_count = 2, b_failed_count = 1,
           b_processing_mode = Some ''parallel_gpu''\<rparr>,
      snd (process_videos_smart batch_env demo_tasks 20 ''high_quality'' demo_world))"
  by (rule prod_eqI) (simp_all add: demo_run_fst)


lemma scaled_loop_run:
  "loop_video_to_match_audio (durations_env (1280, 720) 10 25 ffmpeg_ok)
     (Path ''in'' ''bg.mp4'') (Path ''in'' ''voice.mp3'') (Path ''out'' ''final.mp4'') ''high_quality''
     demo_world =
   (Inr (Path ''out'' ''final.mp4'', 12),
    \<lparr>files = {Path ''out'' ''final.mp4'', Path ''in'' ''bg.mp4'', Path ''in'' ''voice.mp3'',
               Path ''in'' ''ovr.mp4''},
      trace =
        [ProbeResolution (Path ''in'' ''bg.mp4''),
         Scale (Path ''in'' ''bg.mp4'') (Path ''out'' ''scaled_input_bg.mp4'') ''high_quality'',
         ProbeDuration (Path ''out'' ''scaled_input_bg.mp4''),
         ProbeDuration (Path ''in'' ''voice.mp3''),
         WriteLines (Path ''out'' ''concat_list.txt'')
           (replicate 3 (''file '' @ [CHR 0x27] @ ''out/scaled_input_bg.mp4'' @ [CHR 0x27, CHR 0x0A])),
         Concat (Path ''out'' ''concat_list.txt'') (Path ''out'' ''temp_looped.mp4''),
         Trim (Path ''out'' ''temp_looped.mp4'') 25 (Path ''out'' ''temp_trimmed.mp4''),
         Combine (Path ''out'' ''temp_trimmed.mp4'') (Path ''in'' ''voice.mp3'')
           (Path ''out'' ''final.mp4'') ''high_quality'',
         Unlink (Path ''out'' ''concat_list.txt''), Unlink (Path ''out'' ''temp_looped.mp4''),
         Unlink (Path ''out'' ''temp_trimmed.mp4''),
         Unlink (Path ''out'' ''scaled_input_bg.mp4'')]\<rparr>)"
  by (simp add: run_defs env_defs py_int_def str_path_def) auto

lemma concat_fails_run:
  "loop_video_to_match_audio (durations_env (1280, 720) 10 25 concat_fails)
     (Path ''in'' ''bg.mp4'') (Path ''in'' ''voice.mp3'') (Path ''out'' ''final.mp4'') ''high_quality''
     demo_world =
   (Inl (RuntimeError ''Video looping failed: Invalid data found when processing input''),
    \<lparr>files = {Path ''out'' ''concat_list.txt'', Path ''out'' ''scaled_input_bg.mp4'',
               Path ''in'' ''bg.mp4'', Path ''in'' ''voice.mp3'', Path ''in'' ''ovr.mp4''},
      trace =
        [ProbeResolution (Path ''in'' ''bg.mp4''),
         Scale (Path ''in'' ''bg.mp4'') (Path ''out'' ''scaled_input_bg.mp4'') ''high_quality'',
         ProbeDuration (Path ''out'' ''scaled_input_bg.mp4''),
         ProbeDuration (Path ''in'' ''voice.mp3''),
         WriteLines (Path ''out'' ''concat_list.txt'')
           (replicate 3 (''file '' @ [CHR 0x27] @ ''out/scaled_input_bg.mp4'' @ [CHR 0x27, CHR 0x0A])),
         Concat (Path ''out'' ''concat_list.txt'') (Path ''out'' ''temp_looped.mp4'')]\<rparr>)"
  by (simp add: run_defs env_defs py_int_def str_path_def)

lemma unlink_denied_run:
  "loop_video_to_match_audio
     (unlink_denied (Path ''out'' ''temp_looped.mp4'') (durations_env (1280, 720) 10 25 ffmpeg_ok))
     (Path ''in'' ''bg.mp4'') (Path ''in'' ''voice.mp3'') (Path ''out'' ''final.mp4'') ''high_quality''
     demo_world =
   (Inr (Path ''out'' ''final.mp4'', 10),
    \<lparr>files = {Path ''out'' ''final.mp4'', Path ''out'' ''temp_trimmed.mp4'',
               Path ''out'' ''temp_looped.mp4'', Path ''out'' ''scaled_input_bg.mp4'',
               Path ''in'' ''bg.mp4'', Path ''in'' ''voice.mp3'', Path ''in'' ''ovr.mp4''},
      trace =
        [ProbeResolution (Path ''in'' ''bg.mp4''),
         Scale (Path ''in'' ''bg.mp4'') (Path ''out'' ''scaled_input_bg.mp4'') ''high_quality'',
         ProbeDuration (Path ''out'' ''scaled_input_bg.mp4''),
         ProbeDuration (Path ''in'' ''voice.mp3''),
         WriteLines (Path ''out'' ''concat_list.txt'')
           (replicate 3 (''file '' @ [CHR 0x27] @ ''out/scaled_input_bg.mp4'' @ [CHR 0x27, CHR 0x0A])),
         Concat (Path ''out'' ''concat_list.txt'') (Path ''out'' ''temp_looped.mp4''),
         Trim (Path ''out'' ''temp_looped.mp4'') 25 (Path ''out'' ''temp_trimmed.mp4''),
         Combine (Path ''out'' ''temp_trimmed.mp4'') (Path ''in'' ''voice.mp3'')
           (Path ''out'' ''final.mp4'') ''high_quality'',
         Unlink (Path ''out'' ''concat_list.txt''),
         UnlinkFailed (Path ''out'' ''temp_looped.mp4'')]\<rparr>)"
  by (simp add: run_defs env_defs unlink_denied_def py_int_def str_path_def) auto

section \<open>Properties of the duration matcher\<close>

lemma io_bind_InrE:
  assumes "io_bind m f w = (Inr y, w')"
  obtains x w1 where "m w = (Inr x, w1)" "f x w1 = (Inr y, w')"
  using assms by (auto simp: io_bind_def split: prod.splits sum.splits)

lemma run_ffmpeg_Inr:
  "run_ffmpeg env cmd out msg w = (Inr u, w') \<Longrightarrow>
   w' = \<lparr>files = insert out (files w), trace = trace w @ [cmd]\<rparr>"
  by (auto simp: run_ffmpeg_def emit_def split: proc.splits if_splits)

lemma get_media_duration_Inr:
  "get_media_duration env p w = (Inr d, w') \<Longrightarrow> w' = \<lparr>files = files w, trace = trace w @ [ProbeDuration p]\<rparr>"
  by (auto simp: get_media_duration_def emit_def split: proc.splits if_splits option.splits)

lemma combine_Inr:
  "combine_video_audio env v a out q w = (Inr r, w') \<Longrightarrow>
   r = out \<and> w' = \<lparr>files = insert out (files w), trace = trace w @ [Combine v a out q]\<rparr>"
  unfolding combine_video_audio_def
  by (erule io_bind_InrE) (auto simp: io_return_def dest: run_ffmpeg_Inr)

lemma scale_Inr:
  assumes "scale_video_to_1080p env i out q w = (Inr p, w')"
  shows "(p = i \<and> w' = \<lparr>files = files w, trace = trace w @ [ProbeResolution i]\<rparr>) \<or>
         (p = out \<and> w' = \<lparr>files = insert out (files w),
                             trace = trace w @ [ProbeResolution i, Scale i out q]\<rparr>)"
proof -
  from assms obtain wh w1 where
    r: "get_video_resolution env i w = (Inr wh, w1)" and
    k: "(case wh of (width, height) \<Rightarrow>
           if width = 1920 \<and> height = 1080 then io_return i
           else io_bind (run_ffmpeg env (Scale i out q) out ''GPU video scaling failed: '')
                  (\<lambda>_. io_return out)) w1 = (Inr p, w')"
    unfolding scale_video_to_1080p_def by (erule io_bind_InrE)
  from r have w1: "w1 = \<lparr>files = files w, trace = trace w @ [ProbeResolution i]\<rparr>"
    by (auto simp: get_video_resolution_def emit_def split: proc.splits if_splits option.splits)
  obtain width height where wh: "wh = (width, height)" by (cases wh)
  show ?thesis
  proof (cases "width = 1920 \<and> height = 1080")
    case True
    with k wh w1 show ?thesis by (auto simp: io_return_def)
  next
    case False
    with k wh have "io_bind (run_ffmpeg env (Scale i out q) out ''GPU video scaling failed: '')
                  (\<lambda>_. io_return out) w1 = (Inr p, w')" by simp
    then obtain u w2 where "run_ffmpeg env (Scale i out q) out ''GPU video scaling failed: '' w1 = (Inr u, w2)"
      "io_return out w2 = (Inr p, w')" by (rule io_bind_InrE)
    with w1 show ?thesis by (auto simp: io_return_def dest: run_ffmpeg_Inr)
  qed
qed

lemma write_lines_Inr:
  "write_lines env p ls w = (Inr u, w') \<Longrightarrow>
   w' = \<lparr>files = insert p (files w), trace = trace w @ [WriteLines p ls]\<rparr>"
  by (auto simp: write_lines_def emit_def split: option.splits)

lemma loops_needed_Inr: "loops_needed a v w = (Inr n, w') \<Longrightarrow> w' = w"
  by (auto simp: loops_needed_def io_raise_def io_return_def split: if_splits)

lemma scaled_name_differs: "Path d (''scaled_input_'' @ name v) \<noteq> v"
proof
  assume "Path d (''scaled_input_'' @ name v) = v"
  then have "name v = ''scaled_input_'' @ name v" by (cases v) simp
  then have "length (name v) = length (''scaled_input_'' @ name v)" by simp
  then show False by simp
qed

lemma unlink_present:
  "p \<in> files w \<Longrightarrow> unlink_out env w p = None \<Longrightarrow>
   unlink env p w = (Inr (), \<lparr>files = files w - {p}, trace = trace w @ [Unlink p]\<rparr>)"
  by (simp add: unlink_def emit_def)

lemma created_simps:
  "created (Scale i out q) = Some out" "created (Concat l out) = Some out"
  "created (Trim i t out) = Some out" "created (Combine v a out q) = Some out"
  "created (WriteLines p ls) = Some p" "created (Unlink p) = None"
  "created (UnlinkFailed p) = None"
  "created (ProbeDuration p) = None" "created (ProbeResolution p) = None"
  by (simp_all add: created_def)

lemma py_int_nonneg: "0 \<le> x \<Longrightarrow> py_int x = \<lfloor>x\<rfloor>"
  by (simp add: py_int_def)

lemma loops_needed_positive:
  assumes "0 < a" "0 < v"
  shows "loops_needed a v w = (Inr (\<lfloor>a / v\<rfloor> + 1), w) \<and> 1 \<le> \<lfloor>a / v\<rfloor> + 1"
proof -
  from assms have "0 \<le> a / v" by simp
  then have "py_int (a / v) = \<lfloor>a / v\<rfloor>" "0 \<le> \<lfloor>a / v\<rfloor>"
    by (simp_all add: py_int_nonneg)
  with assms show ?thesis by (simp add: loops_needed_def io_return_def)
qed

text \<open>
  C1. When the probes succeed, the video duration is positive and the audio is longer,
  the loop count is \<open>floor (audio_dur / video_dur) + 1\<close>, it is at least 1, and the one
  concat list the call writes holds exactly that many lines, each naming the processed
  video. For durations 10 and 25 the count is 3, and for any two positive durations the
  formula gives the floor of the quotient plus one, which is at least 1.
\<close>

theorem loop_count_is_floor_plus_one:
  assumes "scale_video_to_1080p env video_path
             (Path (parent output_path) (''scaled_input_'' @ name video_path)) quality_preset w
             = (Inr processed, w1)"
    and "get_media_duration env processed w1 = (Inr video_dur, w2)"
    and "get_media_duration env audio_path w2 = (Inr audio_dur, w3)"
    and "0 < video_dur" and "video_dur < audio_dur"
    and "open_out env w3 (Path (parent output_path) ''concat_list.txt'') = None"
  shows "loops_needed audio_dur video_dur w3 = (Inr (\<lfloor>audio_dur / video_dur\<rfloor> + 1), w3) \<and>
         1 \<le> \<lfloor>audio_dur / video_dur\<rfloor> + 1 \<and>
         filter is_write
           (new_events w (snd (loop_video_to_match_audio env video_path audio_path output_path
                                 quality_preset w)))
           = [WriteLines (Path (parent output_path) ''concat_list.txt'')
                (replicate (nat (\<lfloor>audio_dur / video_dur\<rfloor> + 1))
                   (''file '' @ [CHR 0x27] @ str_path processed @ [CHR 0x27, CHR 0x0A]))] \<and>
         length (concat_lines processed (\<lfloor>audio_dur / video_dur\<rfloor> + 1))
           = nat \<lfloor>audio_dur / video_dur\<rfloor> + 1 \<and>
         loops_needed 25 10 w3 = (Inr 3, w3) \<and>
         (\<forall>a v. 0 < a \<and> 0 < v \<longrightarrow>
            loops_needed a v w3 = (Inr (\<lfloor>a / v\<rfloor> + 1), w3) \<and> 1 \<le> \<lfloor>a / v\<rfloor> + 1)"
proof -
  let ?w' = "snd (loop_video_to_match_audio env video_path audio_path output_path quality_preset w)"
  let ?n = "\<lfloor>audio_dur / video_dur\<rfloor> + 1"
  let ?concat = "Path (parent output_path) ''concat_list.txt''"
  from assms(4,5) have a: "0 < audio_dur" by simp
  note ln = loops_needed_positive [OF a assms(4), of w3]
  from scale_Inr [OF assms(1)] get_media_duration_Inr [OF assms(2)] get_media_duration_Inr [OF assms(3)]
  obtain pre where pre: "trace w3 = trace w @ pre" "filter is_write pre = []"
    by (auto simp: is_write_def)
  have wl: "write_lines env ?concat (concat_lines processed ?n) w3 =
          (Inr (), \<lparr>files = insert ?concat (files w3),
                    trace = trace w3 @ [WriteLines ?concat (concat_lines processed ?n)]\<rparr>)"
    using assms(6) by (simp add: write_lines_def emit_def)
  let ?w4 = "\<lparr>files = insert ?concat (files w3),
                 trace = trace w3 @ [WriteLines ?concat (concat_lines processed ?n)]\<rparr>"
  have run: "?w' = snd (concat_trim_combine env (clock env w) video_path audio_path output_path
                          quality_preset processed audio_dur ?concat ?w4)"
    using assms(1-3,5) ln wl
    by (simp add: loop_video_to_match_audio_def match_audio_from_def Let_def io_bind_def)
  have "emits (\<lambda>ev. \<not> is_write ev)
          (concat_trim_combine env (clock env w) video_path audio_path output_path
             quality_preset processed audio_dur ?concat)"
    by (rule emits_concat_trim_combine) (simp_all add: is_write_def)
  from emitsD [OF this, of ?w4] run obtain es where
    es: "trace ?w' = trace ?w4 @ es" "list_all (\<lambda>ev. \<not> is_write ev) es"
    by auto
  from es(2) have "filter is_write es = []"
    by (simp add: filter_empty_conv list_all_iff)
  with es(1) have "\<exists>rest. trace ?w' = trace w3 @ WriteLines ?concat (concat_lines processed ?n) # rest \<and>
               filter is_write rest = []"
    by simp
  then obtain rest where "trace ?w' = trace w3 @ WriteLines ?concat (concat_lines processed ?n) # rest"
    "filter is_write rest = []" by blast
  with pre have "filter is_write (new_events w ?w') = [WriteLines ?concat (concat_lines processed ?n)]"
    by (simp add: new_events_def is_write_def)
  moreover have "length (concat_lines processed ?n) = nat \<lfloor>audio_dur / video_dur\<rfloor> + 1"
    using ln by (simp add: concat_lines_def nat_add_distrib)
  moreover have "loops_needed 25 10 w3 = (Inr 3, w3)"
    using loops_needed_positive [of 25 10 w3] by simp
  moreover have "\<forall>a v. 0 < a \<and> 0 < v \<longrightarrow>
            loops_needed a v w3 = (Inr (\<lfloor>a / v\<rfloor> + 1), w3) \<and> 1 \<le> \<lfloor>a / v\<rfloor> + 1"
    using loops_needed_positive by blast
  ultimately show ?thesis using ln by (simp add: concat_lines_def)
qed

theorem loop_count_is_floor_plus_one_witness:
  "scale_video_to_1080p (durations_env (1920, 1080) 10 25 ffmpeg_ok) (Path ''in'' ''bg.mp4'')
     (Path (parent (Path ''out'' ''final.mp4'')) (''scaled_input_'' @ name (Path ''in'' ''bg.mp4'')))
     ''high_quality'' demo_world
     = (Inr (Path ''in'' ''bg.mp4''), emit (ProbeResolution (Path ''in'' ''bg.mp4'')) demo_world) \<and>
   get_media_duration (durations_env (1920, 1080) 10 25 ffmpeg_ok) (Path ''in'' ''bg.mp4'')
     (emit (ProbeResolution (Path ''in'' ''bg.mp4'')) demo_world)
     = (Inr 10, emit (ProbeDuration (Path ''in'' ''bg.mp4''))
                  (emit (ProbeResolution (Path ''in'' ''bg.mp4'')) demo_world)) \<and>
   get_media_duration (durations_env (1920, 1080) 10 25 ffmpeg_ok) (Path ''in'' ''voice.mp3'')
     (emit (ProbeDuration (Path ''in'' ''bg.mp4''))
        (emit (ProbeResolution (Path ''in'' ''bg.mp4'')) demo_world))
     = (Inr 25, emit (ProbeDuration (Path ''in'' ''voice.mp3''))
                  (emit (ProbeDuration (Path ''in'' ''bg.mp4''))
                     (emit (ProbeResolution (Path ''in'' ''bg.mp4'')) demo_world))) \<and>
   (0::real) < 10 \<and> (10::real) < 25 \<and>
   open_out (durations_env (1920, 1080) 10 25 ffmpeg_ok)
     (emit (ProbeDuration (Path ''in'' ''voice.mp3''))
        (emit (ProbeDuration (Path ''in'' ''bg.mp4''))
           (emit (ProbeResolution (Path ''in'' ''bg.mp4'')) demo_world)))
     (Path (parent (Path ''out'' ''final.mp4'')) ''concat_list.txt'') = None \<and>
   filter is_write
     (new_events demo_world
        (snd (loop_video_to_match_audio (durations_env (1920, 1080) 10 25 ffmpeg_ok)
                (Path ''in'' ''bg.mp4'') (Path ''in'' ''voice.mp3'') (Path ''out'' ''final.mp4'')
                ''high_quality'' demo_world)))
     = [WriteLines (Path ''out'' ''concat_list.txt'')
          (replicate 3 (''file '' @ [CHR 0x27] @ ''in/bg.mp4'' @ [CHR 0x27, CHR 0x0A]))]"
proof -
  let ?env = "durations_env (1920, 1080) 10 25 ffmpeg_ok"
  let ?w1 = "emit (ProbeResolution (Path ''in'' ''bg.mp4'')) demo_world"
  let ?w2 = "emit (ProbeDuration (Path ''in'' ''bg.mp4'')) ?w1"
  let ?w3 = "emit (ProbeDuration (Path ''in'' ''voice.mp3'')) ?w2"
  have h1: "scale_video_to_1080p ?env (Path ''in'' ''bg.mp4'')
              (Path (parent (Path ''out'' ''final.mp4'')) (''scaled_input_'' @ name (Path ''in'' ''bg.mp4'')))
              ''high_quality'' demo_world = (Inr (Path ''in'' ''bg.mp4''), ?w1)"
    by (simp add: scale_video_to_1080p_def get_video_resolution_def io_bind_def io_return_def env_defs)
  have h2: "get_media_duration ?env (Path ''in'' ''bg.mp4'') ?w1 = (Inr 10, ?w2)"
    by (simp add: get_media_duration_def env_defs)
  have h3: "get_media_duration ?env (Path ''in'' ''voice.mp3'') ?w2 = (Inr 25, ?w3)"
    by (simp add: get_media_duration_def env_defs)
  have h4: "(0::real) < 10" and h5: "(10::real) < 25" by simp_all
  have h6: "open_out ?env ?w3 (Path (parent (Path ''out'' ''final.mp4'')) ''concat_list.txt'') = None"
    by (simp add: env_defs)
  from loop_count_is_floor_plus_one [OF h1 h2 h3 h4 h5 h6] h1 h2 h3 h6
  show ?thesis by (simp add: str_path_def)
qed

lemma probes_world:
  assumes "scale_video_to_1080p env video_path scaled quality_preset w = (Inr processed, w1)"
    and "get_media_duration env processed w1 = (Inr video_dur, w2)"
    and "get_media_duration env audio_path w2 = (Inr audio_dur, w3)"
  shows "\<exists>pre. trace w3 = trace w @ pre \<and> filter is_combine pre = [] \<and> filter is_loop_step pre = []"
  using scale_Inr [OF assms(1)] get_media_duration_Inr [OF assms(2)] get_media_duration_Inr [OF assms(3)]
  by (auto simp: is_combine_def is_loop_step_def)

text \<open>
  C3. When the probes succeed and the audio is not longer than the (scaled) video, equal
  durations included, the call launches exactly one combine pass, of the processed video
  with the audio into the output path, and no step of the looping path: no concat list is
  written, nothing is concatenated, nothing is trimmed.
\<close>

theorem direct_combine_when_audio_not_longer:
  assumes "scale_video_to_1080p env video_path
             (Path (parent output_path) (''scaled_input_'' @ name video_path)) quality_preset w
             = (Inr processed, w1)"
    and "get_media_duration env processed w1 = (Inr video_dur, w2)"
    and "get_media_duration env audio_path w2 = (Inr audio_dur, w3)"
    and "audio_dur \<le> video_dur"
  shows "filter is_combine
           (new_events w (snd (loop_video_to_match_audio env video_path audio_path output_path
                                 quality_preset w)))
           = [Combine processed audio_path output_path quality_preset] \<and>
         filter is_loop_step
           (new_events w (snd (loop_video_to_match_audio env video_path audio_path output_path
                                 quality_preset w)))
           = []"
proof -
  let ?w' = "snd (loop_video_to_match_audio env video_path audio_path output_path quality_preset w)"
  from probes_world [OF assms(1-3)] obtain pre where
    pre: "trace w3 = trace w @ pre" "filter is_combine pre = []" "filter is_loop_step pre = []"
    by blast
  have "trace ?w' = trace w3 @ [Combine processed audio_path output_path quality_preset] \<or>
        trace ?w' = trace w3 @ [Combine processed audio_path output_path quality_preset, Unlink processed] \<or>
        trace ?w' = trace w3 @ [Combine processed audio_path output_path quality_preset,
                                UnlinkFailed processed]"
    using assms
    by (auto simp: loop_video_to_match_audio_def match_audio_from_def Let_def io_bind_def
          combine_video_audio_def run_ffmpeg_def try_pass_def unlink_def io_return_def emit_def
          split: proc.splits option.splits)
  with pre show ?thesis
    by (auto simp: new_events_def is_combine_def is_loop_step_def)
qed

theorem direct_combine_when_audio_not_longer_witness:
  "scale_video_to_1080p (durations_env (1920, 1080) 30 30 ffmpeg_ok) (Path ''in'' ''bg.mp4'')
     (Path (parent (Path ''out'' ''final.mp4'')) (''scaled_input_'' @ name (Path ''in'' ''bg.mp4'')))
     ''high_quality'' demo_world
     = (Inr (Path ''in'' ''bg.mp4''), emit (ProbeResolution (Path ''in'' ''bg.mp4'')) demo_world) \<and>
   get_media_duration (durations_env (1920, 1080) 30 30 ffmpeg_ok) (Path ''in'' ''bg.mp4'')
     (emit (ProbeResolution (Path ''in'' ''bg.mp4'')) demo_world)
     = (Inr 30, emit (ProbeDuration (Path ''in'' ''bg.mp4''))
                  (emit (ProbeResolution (Path ''in'' ''bg.mp4'')) demo_world)) \<and>
   get_media_duration (durations_env (1920, 1080) 30 30 ffmpeg_ok) (Path ''in'' ''voice.mp3'')
     (emit (ProbeDuration (Path ''in'' ''bg.mp4''))
        (emit (ProbeResolution (Path ''in'' ''bg.mp4'')) demo_world))
     = (Inr 30, emit (ProbeDuration (Path ''in'' ''voice.mp3''))
                  (emit (ProbeDuration (Path ''in'' ''bg.mp4''))
                     (emit (ProbeResolution (Path ''in'' ''bg.mp4'')) demo_world))) \<and>
   (30::real) \<le> 30 \<and>
   filter is_combine
     (new_events demo_world
        (snd (loop_video_to_match_audio (durations_env (1920, 1080) 30 30 ffmpeg_ok)
                (Path ''in'' ''bg.mp4'') (Path ''in'' ''voice.mp3'') (Path ''out'' ''final.mp4'')
                ''high_quality'' demo_world)))
     = [Combine (Path ''in'' ''bg.mp4'') (Path ''in'' ''voice.mp3'') (Path ''out'' ''final.mp4'')
          ''high_quality''] \<and>
   filter is_loop_step
     (new_events demo_world
        (snd (loop_video_to_match_audio (durations_env (1920, 1080) 30 30 ffmpeg_ok)
                (Path ''in'' ''bg.mp4'') (Path ''in'' ''voice.mp3'') (Path ''out'' ''final.mp4'')
                ''high_quality'' demo_world)))
     = []"
proof -
  let ?env = "durations_env (1920, 1080) 30 30 ffmpeg_ok"
  let ?w1 = "emit (ProbeResolution (Path ''in'' ''bg.mp4'')) demo_world"
  let ?w2 = "emit (ProbeDuration (Path ''in'' ''bg.mp4'')) ?w1"
  let ?w3 = "emit (ProbeDuration (Path ''in'' ''voice.mp3'')) ?w2"
  have h1: "scale_video_to_1080p ?env (Path ''in'' ''bg.mp4'')
              (Path (parent (Path ''out'' ''final.mp4'')) (''scaled_input_'' @ name (Path ''in'' ''bg.mp4'')))
              ''high_quality'' demo_world = (Inr (Path ''in'' ''bg.mp4''), ?w1)"
    by (simp add: scale_video_to_1080p_def get_video_resolution_def io_bind_def io_return_def env_defs)
  have h2: "get_media_duration ?env (Path ''in'' ''bg.mp4'') ?w1 = (Inr 30, ?w2)"
    by (simp add: get_media_duration_def env_defs)
  have h3: "get_media_duration ?env (Path ''in'' ''voice.mp3'') ?w2 = (Inr 30, ?w3)"
    by (simp add: get_media_duration_def env_defs)
  have h4: "(30::real) \<le> 30" by simp
  from direct_combine_when_audio_not_longer [OF h1 h2 h3 h4] h1 h2 h3
  show ?thesis by simp
qed

subsection \<open>What a raise leaves behind\<close>

lemma keepsD:
  "keeps m \<Longrightarrow> \<exists>es. trace (snd (m w)) = trace w @ es \<and> list_all no_unlink es \<and> files w \<subseteq> files (snd (m w))"
  by (simp add: keeps_def)

lemma keeps_return: "keeps (io_return x)"
  by (simp add: keeps_def io_return_def)

lemma keeps_raise: "keeps (io_raise e)"
  by (simp add: keeps_def io_raise_def)

lemma keeps_bind:
  assumes "keeps m" "\<And>x. keeps (f x)"
  shows "keeps (io_bind m f)"
  unfolding keeps_def
proof
  fix w
  obtain r w1 where m: "m w = (r, w1)" by (cases "m w")
  from keepsD [OF assms(1), of w] m obtain es where
    es: "trace w1 = trace w @ es" "list_all no_unlink es" "files w \<subseteq> files w1" by auto
  show "\<exists>es. trace (snd (io_bind m f w)) = trace w @ es \<and> list_all no_unlink es \<and>
             files w \<subseteq> files (snd (io_bind m f w))"
  proof (cases r)
    case (Inl e)
    with m es show ?thesis by (auto simp: io_bind_def)
  next
    case (Inr x)
    from keepsD [OF assms(2), of x w1] obtain es' where
      "trace (snd (f x w1)) = trace w1 @ es'" "list_all no_unlink es'" "files w1 \<subseteq> files (snd (f x w1))"
      by auto
    with m es Inr show ?thesis by (auto simp: io_bind_def)
  qed
qed

lemma keeps_if: "keeps m \<Longrightarrow> keeps n \<Longrightarrow> keeps (if b then m else n)"
  by simp

lemma keeps_run_ffmpeg: "no_unlink cmd \<Longrightarrow> keeps (run_ffmpeg env cmd out msg)"
  by (auto simp: keeps_def run_ffmpeg_def emit_def split: proc.split)

lemma keeps_write_lines: "keeps (write_lines env p ls)"
  by (auto simp: keeps_def write_lines_def emit_def no_unlink_def is_unlink_def is_unlink_failed_def
        split: option.split)

lemma keeps_get_media_duration: "keeps (get_media_duration env p)"
  by (auto simp: keeps_def get_media_duration_def emit_def no_unlink_def is_unlink_def
        is_unlink_failed_def split: proc.split option.split)

lemma keeps_get_video_resolution: "keeps (get_video_resolution env p)"
  by (auto simp: keeps_def get_video_resolution_def emit_def no_unlink_def is_unlink_def
        is_unlink_failed_def split: proc.split option.split)

lemma keeps_loops_needed: "keeps (loops_needed a v)"
  by (simp add: loops_needed_def keeps_return keeps_raise)

lemma no_unlink_commands:
  "no_unlink (Scale i out q)" "no_unlink (Concat l out)" "no_unlink (Trim i t out)"
  "no_unlink (Combine v a out q)"
  by (simp_all add: no_unlink_def is_unlink_def is_unlink_failed_def)

lemma keeps_scale: "keeps (scale_video_to_1080p env i out q)"
  unfolding scale_video_to_1080p_def
  by (intro keeps_bind keeps_get_video_resolution)
     (auto intro!: keeps_bind keeps_return keeps_run_ffmpeg no_unlink_commands)

lemma keeps_combine: "keeps (combine_video_audio env v a out q)"
  unfolding combine_video_audio_def
  by (intro keeps_bind keeps_return keeps_run_ffmpeg no_unlink_commands)

lemma never_raises_return: "never_raises (io_return x)"
  by (simp add: never_raises_def io_return_def)

lemma never_raises_result: "never_raises (\<lambda>w. (Inr (g w), w))"
  by (simp add: never_raises_def)

lemma never_raises_try_pass: "never_raises (try_pass m)"
  by (auto simp: never_raises_def try_pass_def split: prod.split sum.split)

lemma never_raises_if: "never_raises m \<Longrightarrow> never_raises n \<Longrightarrow> never_raises (if b then m else n)"
  by simp

lemma never_raises_bind:
  assumes "never_raises m" "\<And>x. never_raises (f x)"
  shows "never_raises (io_bind m f)"
  unfolding never_raises_def
proof
  fix w
  from assms(1) obtain x where "fst (m w) = Inr x" by (auto simp: never_raises_def)
  then have "io_bind m f w = f x (snd (m w))"
    by (cases "m w") (simp add: io_bind_def)
  with assms(2) [of x] show "\<exists>y. fst (io_bind m f w) = Inr y"
    by (simp add: never_raises_def)
qed

lemma never_raises_untouched:
  assumes "never_raises m"
  shows "raises_untouched m"
  unfolding raises_untouched_def
proof (intro allI impI)
  fix w e w'
  assume "m w = (Inl e, w')"
  moreover from assms obtain x where "fst (m w) = Inr x" by (auto simp: never_raises_def)
  ultimately show "(\<exists>es. trace w' = trace w @ es \<and> list_all no_unlink es) \<and> files w \<subseteq> files w'"
    by simp
qed

lemma raises_untouched_bind:
  assumes "keeps m" "\<And>x. raises_untouched (f x)"
  shows "raises_untouched (io_bind m f)"
  unfolding raises_untouched_def
proof (intro allI impI)
  fix w e w'
  assume h: "io_bind m f w = (Inl e, w')"
  obtain r w1 where m: "m w = (r, w1)" by (cases "m w")
  from keepsD [OF assms(1), of w] m obtain es where
    es: "trace w1 = trace w @ es" "list_all no_unlink es" "files w \<subseteq> files w1" by auto
  show "(\<exists>es. trace w' = trace w @ es \<and> list_all no_unlink es) \<and> files w \<subseteq> files w'"
  proof (cases r)
    case (Inl e1)
    with m h have "w' = w1" by (simp add: io_bind_def)
    with es show ?thesis by simp
  next
    case (Inr x)
    with m h have "f x w1 = (Inl e, w')" by (simp add: io_bind_def)
    with assms(2) [of x] have
      "(\<exists>es'. trace w' = trace w1 @ es' \<and> list_all no_unlink es') \<and> files w1 \<subseteq> files w'"
      unfolding raises_untouched_def by blast
    then obtain es' where "trace w' = trace w1 @ es'" and "list_all no_unlink es'"
      and "files w1 \<subseteq> files w'"
      by blast
    with es show ?thesis by auto
  qed
qed

lemma raises_untouched_if:
  "raises_untouched m \<Longrightarrow> raises_untouched n \<Longrightarrow> raises_untouched (if b then m else n)"
  by simp

lemma raises_untouched_concat_trim_combine:
  "raises_untouched (concat_trim_combine env t v a out q p d c)"
  unfolding concat_trim_combine_def Let_def
  apply (rule raises_untouched_bind [OF keeps_run_ffmpeg [OF no_unlink_commands(2)]])
  apply (rule raises_untouched_bind [OF keeps_run_ffmpeg [OF no_unlink_commands(3)]])
  apply (rule raises_untouched_bind [OF keeps_combine])
  apply (rule never_raises_untouched)
  apply (rule never_raises_bind)
   apply (simp add: cleanup_temporary_files_def never_raises_try_pass)
  apply (rule never_raises_result)
  done

lemma raises_untouched_match_audio_from:
  "raises_untouched (match_audio_from env t v a out q)"
  unfolding match_audio_from_def Let_def
  apply (rule raises_untouched_bind [OF keeps_scale])
  apply (rule raises_untouched_bind [OF keeps_get_media_duration])
  apply (rule raises_untouched_bind [OF keeps_get_media_duration])
  apply (rule raises_untouched_if)
   apply (rule raises_untouched_bind [OF keeps_combine])
   apply (rule never_raises_untouched)
   apply (rule never_raises_bind)
    apply (rule never_raises_if)
     apply (rule never_raises_try_pass)
    apply (rule never_raises_return)
   apply (rule never_raises_result)
  apply (rule raises_untouched_bind [OF keeps_loops_needed])
  apply (rule raises_untouched_bind [OF keeps_write_lines])
  apply (rule raises_untouched_concat_trim_combine)
  done

lemma raises_untouched_loop_video:
  "raises_untouched (loop_video_to_match_audio env v a out q)"
  using raises_untouched_match_audio_from [of env _ v a out q]
  by (simp add: raises_untouched_def loop_video_to_match_audio_def Let_def)

subsection \<open>The cleanup\<close>

lemma unlink_cases:
  "(unlink env p w = (Inr (), \<lparr>files = files w - {p}, trace = trace w @ [Unlink p]\<rparr>) \<and> p \<in> files w) \<or>
   (\<exists>e. unlink env p w = (Inl e, \<lparr>files = files w, trace = trace w @ [UnlinkFailed p]\<rparr>))"
  by (auto simp: unlink_def emit_def split: option.split)

lemma cleanup_outcome:
  shows "fst (cleanup_temporary_files env c l t p v w) = Inr () \<and>
         (snd (cleanup_temporary_files env c l t p v w) =
            \<lparr>files = files w - {c} - {l} - {t} - (if p \<noteq> v then {p} else {}),
             trace = trace w @ [Unlink c, Unlink l, Unlink t] @ (if p \<noteq> v then [Unlink p] else [])\<rparr> \<or>
          (\<exists>us q. trace (snd (cleanup_temporary_files env c l t p v w)) = trace w @ us @ [UnlinkFailed q] \<and>
                  list_all is_unlink us))"
proof -
  let ?w1 = "\<lparr>files = files w - {c}, trace = trace w @ [Unlink c]\<rparr>"
  let ?w2 = "\<lparr>files = files w - {c} - {l}, trace = trace w @ [Unlink c, Unlink l]\<rparr>"
  let ?w3 = "\<lparr>files = files w - {c} - {l} - {t}, trace = trace w @ [Unlink c, Unlink l, Unlink t]\<rparr>"
  note defs = cleanup_temporary_files_def try_pass_def io_bind_def io_return_def
  from unlink_cases [of env c w] show ?thesis
  proof (elim disjE conjE exE)
    fix e assume "unlink env c w = (Inl e, \<lparr>files = files w, trace = trace w @ [UnlinkFailed c]\<rparr>)"
    then have eq: "cleanup_temporary_files env c l t p v w =
                 (Inr (), \<lparr>files = files w, trace = trace w @ [] @ [UnlinkFailed c]\<rparr>)"
      by (simp add: defs)
    show ?thesis unfolding eq
      by (intro conjI disjI2 exI [of _ "[]"] exI [of _ c]) simp_all
  next
    assume u1: "unlink env c w = (Inr (), ?w1)"
    from unlink_cases [of env l ?w1] show ?thesis
    proof (elim disjE conjE exE)
      fix e assume "unlink env l ?w1 = (Inl e, \<lparr>files = files ?w1, trace = trace ?w1 @ [UnlinkFailed l]\<rparr>)"
      with u1 have eq: "cleanup_temporary_files env c l t p v w =
                 (Inr (), \<lparr>files = files ?w1, trace = trace w @ [Unlink c] @ [UnlinkFailed l]\<rparr>)"
        by (simp add: defs)
        show ?thesis unfolding eq
          by (intro conjI disjI2 exI [of _ "[Unlink c]"] exI [of _ l]) (simp_all add: is_unlink_def)
    next
      assume "unlink env l ?w1 = (Inr (), \<lparr>files = files ?w1 - {l}, trace = trace ?w1 @ [Unlink l]\<rparr>)"
      then have u2: "unlink env l ?w1 = (Inr (), ?w2)" by simp
      from unlink_cases [of env t ?w2] show ?thesis
      proof (elim disjE conjE exE)
        fix e assume "unlink env t ?w2 = (Inl e, \<lparr>files = files ?w2, trace = trace ?w2 @ [UnlinkFailed t]\<rparr>)"
        with u1 u2 have eq: "cleanup_temporary_files env c l t p v w =
                 (Inr (), \<lparr>files = files ?w2, trace = trace w @ [Unlink c, Unlink l] @ [UnlinkFailed t]\<rparr>)"
          by (simp add: defs)
        show ?thesis unfolding eq
          by (intro conjI disjI2 exI [of _ "[Unlink c, Unlink l]"] exI [of _ t]) (simp_all add: is_unlink_def)
      next
        assume "unlink env t ?w2 = (Inr (), \<lparr>files = files ?w2 - {t}, trace = trace ?w2 @ [Unlink t]\<rparr>)"
        then have u3: "unlink env t ?w2 = (Inr (), ?w3)" by simp
        show ?thesis
        proof (cases "p \<noteq> v")
          case False
          with u1 u2 u3 have "cleanup_temporary_files env c l t p v w = (Inr (), ?w3)"
            by (simp add: defs)
          with False show ?thesis by simp
        next
          case True
          from unlink_cases [of env p ?w3] show ?thesis
          proof (elim disjE conjE exE)
            fix e assume "unlink env p ?w3 = (Inl e, \<lparr>files = files ?w3, trace = trace ?w3 @ [UnlinkFailed p]\<rparr>)"
            with u1 u2 u3 True have eq: "cleanup_temporary_files env c l t p v w =
                 (Inr (), \<lparr>files = files ?w3,
                           trace = trace w @ [Unlink c, Unlink l, Unlink t] @ [UnlinkFailed p]\<rparr>)"
              by (simp add: defs)
        show ?thesis unfolding eq
          by (intro conjI disjI2 exI [of _ "[Unlink c, Unlink l, Unlink t]"] exI [of _ p]) (simp_all add: is_unlink_def)
          next
            assume "unlink env p ?w3 = (Inr (), \<lparr>files = files ?w3 - {p}, trace = trace ?w3 @ [Unlink p]\<rparr>)"
            with u1 u2 u3 True have "cleanup_temporary_files env c l t p v w =
                 (Inr (), \<lparr>files = files w - {c} - {l} - {t} - {p},
                           trace = trace w @ [Unlink c, Unlink l, Unlink t, Unlink p]\<rparr>)"
              by (simp add: defs)
            with True show ?thesis by simp
          qed
        qed
      qed
    qed
  qed
qed

lemma unlinked_after_append:
  "ev \<in> set xs \<Longrightarrow> Unlink p \<in> set ys \<Longrightarrow> unlinked_after ev p (xs @ ys)"
  by (induction xs) auto

lemma cleanup_complete:
  assumes tw: "es = pre @ steps @ [Unlink c, Unlink l, Unlink t] @ (if p \<noteq> v then [Unlink p] else [])"
    and fw: "F' = insert out (insert t (insert l (insert c F0))) - {c} - {l} - {t}
                    - (if p \<noteq> v then {p} else {})"
    and pre_created: "\<forall>ev \<in> set pre. \<forall>q. created ev = Some q \<longrightarrow> q = p \<and> p \<noteq> v"
    and steps_created: "\<forall>ev \<in> set steps. \<forall>q. created ev = Some q \<longrightarrow> q \<in> {c, l, t, out}"
    and pre_quiet: "\<forall>ev \<in> set pre. \<forall>q. ev \<noteq> UnlinkFailed q"
    and steps_quiet: "\<forall>ev \<in> set steps. \<forall>q. ev \<noteq> UnlinkFailed q"
    and files0: "F0 \<subseteq> insert p F" "p = v \<Longrightarrow> F0 = F"
  shows "(\<forall>ev \<in> set es. \<forall>q. created ev = Some q \<longrightarrow> q \<noteq> out \<longrightarrow> unlinked_after ev q es \<and> q \<notin> F') \<and>
         F' \<subseteq> insert out F \<and> (\<forall>q. UnlinkFailed q \<notin> set es)"
proof (intro conjI ballI allI impI)
  have removed: "c \<notin> F'" "l \<notin> F'" "t \<notin> F'" "p \<noteq> v \<Longrightarrow> p \<notin> F'"
    unfolding fw by simp_all
  let ?unlinks = "[Unlink c, Unlink l, Unlink t] @ (if p \<noteq> v then [Unlink p] else [])"
  have unlinked: "Unlink c \<in> set ?unlinks" "Unlink l \<in> set ?unlinks" "Unlink t \<in> set ?unlinks"
    "p \<noteq> v \<Longrightarrow> Unlink p \<in> set ?unlinks"
    by simp_all
  have split: "es = (pre @ steps) @ ?unlinks"
    unfolding tw by simp
  {
    fix ev q
    assume ev: "ev \<in> set es" and q: "created ev = Some q" "q \<noteq> out"
    from ev have "ev \<in> set pre \<or> ev \<in> set steps \<or> (\<exists>x. ev = Unlink x)"
      unfolding tw by (cases "p = v") auto
    with q have before: "ev \<in> set pre \<or> ev \<in> set steps"
      by (auto simp: created_simps)
    then have "q = c \<or> q = l \<or> q = t \<or> (q = p \<and> p \<noteq> v)"
      using pre_created steps_created q by blast
    with removed unlinked have "Unlink q \<in> set ?unlinks" and gone: "q \<notin> F'"
      by blast+
    moreover from before have "ev \<in> set (pre @ steps)"
      by simp
    ultimately have "unlinked_after ev q ((pre @ steps) @ ?unlinks)"
      by (intro unlinked_after_append)
    with gone show "unlinked_after ev q es" and "q \<notin> F'"
      unfolding split by blast+
  }
  show "F' \<subseteq> insert out F"
  proof (cases "p = v")
    case True
    with files0(2) show ?thesis unfolding fw by auto
  next
    case False
    with files0(1) show ?thesis unfolding fw by auto
  qed
  fix q
  show "UnlinkFailed q \<notin> set es"
    using pre_quiet steps_quiet unfolding tw by (cases "p = v") auto
qed

lemma unlinks_not_failed: "list_all is_unlink us \<Longrightarrow> UnlinkFailed p \<notin> set us"
  by (induction us) (auto simp: is_unlink_def)

lemma no_unlink_not_failed: "list_all no_unlink es \<Longrightarrow> UnlinkFailed p \<notin> set es"
  by (induction es) (auto simp: no_unlink_def is_unlink_failed_def)

text \<open>
  C2, as the code has it. The claim promises the removal of every intermediate file on
  success and on failure. The code has one cleanup at the end of each of its two
  successful paths and none on a raising path (see the counterexample below), and each
  cleanup is a single \<open>try\<close> whose handler logs a warning or passes: the first unlink
  that raises ends it, and the call still returns success. What holds of every call of
  \<open>loop_video_to_match_audio\<close>, whatever the environment does:
  (1) when it returns and no unlink has raised, every file created during the call by a
  command or a write, other than the output path, has been unlinked after its creation
  (the scaled input when scaling occurred, the concat list, the looped and the trimmed
  file) and is not in the file set, which has grown by the output path at most; the file
  set follows the call alone, so a file that another task working in the same directory
  puts under the same name is outside this statement;
  (2) when it raises, no unlink has been attempted and no file has been removed;
  (3) when an unlink raises, the call returns successfully and that unlink is its last
  action: the unlinks that would have followed are skipped.
\<close>

theorem cleanup_is_best_effort:
  assumes "loop_video_to_match_audio env video_path audio_path output_path quality_preset w = (res, w')"
  shows "((\<exists>r. res = Inr r) \<and> list_all (\<lambda>ev. \<not> is_unlink_failed ev) (new_events w w') \<longrightarrow>
            (\<forall>ev \<in> set (new_events w w'). \<forall>p. created ev = Some p \<longrightarrow> p \<noteq> output_path \<longrightarrow>
                unlinked_after ev p (new_events w w') \<and> p \<notin> files w') \<and>
            files w' \<subseteq> insert output_path (files w)) \<and>
         ((\<exists>e. res = Inl e) \<longrightarrow> list_all no_unlink (new_events w w') \<and> files w \<subseteq> files w') \<and>
         (\<forall>p. UnlinkFailed p \<in> set (new_events w w') \<longrightarrow>
            (\<exists>r. res = Inr r) \<and> last (new_events w w') = UnlinkFailed p)"
proof (cases res)
  case (Inl e)
  from raises_untouched_loop_video assms [unfolded Inl]
  obtain es where es: "trace w' = trace w @ es" "list_all no_unlink es" and f: "files w \<subseteq> files w'"
    unfolding raises_untouched_def by blast
  from es have "new_events w w' = es" by (simp add: new_events_def)
  with es f Inl no_unlink_not_failed [OF es(2)] show ?thesis by simp
next
  case (Inr r)
  let ?scaled = "Path (parent output_path) (''scaled_input_'' @ name video_path)"
  let ?concat_file = "Path (parent output_path) ''concat_list.txt''"
  let ?temp_looped = "Path (parent output_path) ''temp_looped.mp4''"
  let ?trimmed = "Path (parent output_path) ''temp_trimmed.mp4''"
  have scaled_video: "?scaled \<noteq> video_path"
    by (rule scaled_name_differs)
  let ?t = "clock env w"
  from assms Inr have m: "match_audio_from env ?t video_path audio_path output_path quality_preset w = (Inr r, w')"
    by (simp add: loop_video_to_match_audio_def Let_def)
  note m_defs = match_audio_from_def Let_def io_bind_def
  obtain r1 w1 where s: "scale_video_to_1080p env video_path ?scaled quality_preset w = (r1, w1)"
    by (cases "scale_video_to_1080p env video_path ?scaled quality_preset w")
  with m obtain processed where r1: "r1 = Inr processed"
    by (cases r1) (simp_all add: m_defs)
  obtain r2 w2 where d1: "get_media_duration env processed w1 = (r2, w2)"
    by (cases "get_media_duration env processed w1")
  with m s r1 obtain video_dur where r2: "r2 = Inr video_dur"
    by (cases r2) (simp_all add: m_defs)
  obtain r3 w3 where d2: "get_media_duration env audio_path w2 = (r3, w3)"
    by (cases "get_media_duration env audio_path w2")
  with m s r1 d1 r2 obtain audio_dur where r3: "r3 = Inr audio_dur"
    by (cases r3) (simp_all add: m_defs)
  note pre = s [unfolded r1] d1 [unfolded r2] d2 [unfolded r3]
  define pre_events where "pre_events =
      (if processed = video_path
       then [ProbeResolution video_path, ProbeDuration processed, ProbeDuration audio_path]
       else [ProbeResolution video_path, Scale video_path ?scaled quality_preset,
             ProbeDuration processed, ProbeDuration audio_path])"
  define files0 where "files0 = (if processed = video_path then files w else insert ?scaled (files w))"
  from scale_Inr [OF pre(1)] get_media_duration_Inr [OF pre(2)] get_media_duration_Inr [OF pre(3)]
    scaled_video
  have w3: "w3 = \<lparr>files = files0, trace = trace w @ pre_events\<rparr>"
    and proc: "processed = video_path \<or> processed = ?scaled"
    by (auto simp: pre_events_def files0_def)
  have pre_created: "\<forall>ev \<in> set pre_events. \<forall>p. created ev = Some p \<longrightarrow> p = processed \<and> processed \<noteq> video_path"
    and pre_quiet: "\<forall>ev \<in> set pre_events. \<forall>p. ev \<noteq> UnlinkFailed p"
    using proc by (auto simp: pre_events_def created_simps)
  have files0: "files0 \<subseteq> insert processed (files w)" "processed = video_path \<Longrightarrow> files0 = files w"
    using proc by (auto simp: files0_def)
  show ?thesis
  proof (cases "audio_dur \<le> video_dur")
    case True
    obtain r4 w4 where c: "combine_video_audio env processed audio_path output_path quality_preset w3 = (r4, w4)"
      by (cases "combine_video_audio env processed audio_path output_path quality_preset w3")
    with m pre True obtain result where r4: "r4 = Inr result"
      by (cases r4) (simp_all add: m_defs)
    from combine_Inr [OF c [unfolded r4]] have
      w4: "w4 = \<lparr>files = insert output_path (files w3),
                 trace = trace w3 @ [Combine processed audio_path output_path quality_preset]\<rparr>"
      by simp
    show ?thesis
    proof (cases "processed = video_path")
      case same: True
      with m pre True c r4 w4 w3 have
        "w' = \<lparr>files = insert output_path files0,
               trace = trace w @ pre_events @ [Combine processed audio_path output_path quality_preset]\<rparr>"
        by (auto simp: m_defs io_return_def)
      with Inr same pre_created pre_quiet files0 show ?thesis
        by (auto simp: new_events_def created_simps)
    next
      case False
      with proc have p: "processed = ?scaled" by simp
      from unlink_cases [of env processed w4] show ?thesis
      proof (elim disjE conjE exE)
        assume "unlink env processed w4 =
                  (Inr (), \<lparr>files = files w4 - {processed}, trace = trace w4 @ [Unlink processed]\<rparr>)"
        with m pre True c r4 w4 w3 False have
          "w' = \<lparr>files = insert output_path files0 - {processed},
                 trace = trace w @ pre_events @ [Combine processed audio_path output_path quality_preset,
                                                 Unlink processed]\<rparr>"
          by (auto simp: m_defs try_pass_def)
        moreover have "\<And>ev. ev \<in> set pre_events \<Longrightarrow>
            unlinked_after ev processed
              (pre_events @ [Combine processed audio_path output_path quality_preset, Unlink processed])"
          by (rule unlinked_after_append) simp_all
        ultimately show ?thesis
          using Inr p pre_created pre_quiet files0
          by (auto simp: new_events_def created_simps)
      next
        fix e assume "unlink env processed w4 =
                  (Inl e, \<lparr>files = files w4, trace = trace w4 @ [UnlinkFailed processed]\<rparr>)"
        with m pre True c r4 w4 w3 False have
          "w' = \<lparr>files = insert output_path files0,
                 trace = trace w @ pre_events @ [Combine processed audio_path output_path quality_preset,
                                                 UnlinkFailed processed]\<rparr>"
          by (auto simp: m_defs try_pass_def)
        with Inr pre_quiet show ?thesis
          by (auto simp: new_events_def is_unlink_failed_def)
      qed
    qed
  next
    case False
    note m_defs = match_audio_from_def concat_trim_combine_def Let_def io_bind_def
    obtain r4 w4 where l: "loops_needed audio_dur video_dur w3 = (r4, w4)"
      by (cases "loops_needed audio_dur video_dur w3")
    with m pre False obtain loops where r4: "r4 = Inr loops"
      by (cases r4) (simp_all add: m_defs)
    from loops_needed_Inr [OF l [unfolded r4]] have w4: "w4 = w3" .
    note l' = l [unfolded r4 w4]
    let ?ls = "concat_lines processed loops"
    obtain r5 w5 where wl: "write_lines env ?concat_file ?ls w3 = (r5, w5)"
      by (cases "write_lines env ?concat_file ?ls w3")
    with m pre False l' obtain u5 where r5: "r5 = Inr u5"
      by (cases r5) (simp_all add: m_defs)
    note wl' = wl [unfolded r5]
    obtain r6 w6 where cc: "run_ffmpeg env (Concat ?concat_file ?temp_looped) ?temp_looped
                              ''Video looping failed: '' w5 = (r6, w6)"
      by (cases "run_ffmpeg env (Concat ?concat_file ?temp_looped) ?temp_looped ''Video looping failed: '' w5")
    with m pre False l' wl' obtain u6 where r6: "r6 = Inr u6"
      by (cases r6) (simp_all add: m_defs)
    note cc' = cc [unfolded r6]
    obtain r7 w7 where tr: "run_ffmpeg env (Trim ?temp_looped audio_dur ?trimmed) ?trimmed
                              ''Video trimming failed: '' w6 = (r7, w7)"
      by (cases "run_ffmpeg env (Trim ?temp_looped audio_dur ?trimmed) ?trimmed ''Video trimming failed: '' w6")
    with m pre False l' wl' cc' obtain u7 where r7: "r7 = Inr u7"
      by (cases r7) (simp_all add: m_defs)
    note tr' = tr [unfolded r7]
    obtain r8 w8 where c: "combine_video_audio env ?trimmed audio_path output_path quality_preset w7 = (r8, w8)"
      by (cases "combine_video_audio env ?trimmed audio_path output_path quality_preset w7")
    with m pre False l' wl' cc' tr' obtain final_result where r8: "r8 = Inr final_result"
      by (cases r8) (simp_all add: m_defs)
    note c' = c [unfolded r8]
    define steps where "steps = [WriteLines ?concat_file ?ls, Concat ?concat_file ?temp_looped,
                                 Trim ?temp_looped audio_dur ?trimmed,
                                 Combine ?trimmed audio_path output_path quality_preset]"
    from write_lines_Inr [OF wl'] run_ffmpeg_Inr [OF cc'] run_ffmpeg_Inr [OF tr'] combine_Inr [OF c'] w3
    have w8: "w8 = \<lparr>files = insert output_path (insert ?trimmed (insert ?temp_looped
                              (insert ?concat_file files0))),
                    trace = trace w @ pre_events @ steps\<rparr>"
      by (simp add: steps_def)
    have steps_created: "\<forall>ev \<in> set steps. \<forall>p. created ev = Some p \<longrightarrow>
                           p \<in> {?concat_file, ?temp_looped, ?trimmed, output_path}"
      and steps_quiet: "\<forall>ev \<in> set steps. \<forall>p. ev \<noteq> UnlinkFailed p"
      by (auto simp: steps_def created_simps)
    let ?cl = "cleanup_temporary_files env ?concat_file ?temp_looped ?trimmed processed video_path w8"
    from cleanup_outcome [of env ?concat_file ?temp_looped ?trimmed processed video_path w8]
    have "fst ?cl = Inr ()" by (rule conjunct1)
    then obtain wc where cl: "?cl = (Inr (), wc)"
      by (cases ?cl) simp
    from m pre False l' wl' cc' tr' c' cl have "w' = wc"
      by (simp add: m_defs)
    with cl have w': "w' = snd ?cl"
      by simp
    from cleanup_outcome [of env ?concat_file ?temp_looped ?trimmed processed video_path w8]
    show ?thesis
    proof (elim conjE disjE exE)
      assume "snd ?cl =
            \<lparr>files = files w8 - {?concat_file} - {?temp_looped} - {?trimmed}
                       - (if processed \<noteq> video_path then {processed} else {}),
             trace = trace w8 @ [Unlink ?concat_file, Unlink ?temp_looped, Unlink ?trimmed]
                       @ (if processed \<noteq> video_path then [Unlink processed] else [])\<rparr>"
      with w' w8 have
        fw: "files w' = insert output_path (insert ?trimmed (insert ?temp_looped
                              (insert ?concat_file files0)))
                        - {?concat_file} - {?temp_looped} - {?trimmed}
                        - (if processed \<noteq> video_path then {processed} else {})"
        and tw: "new_events w w' = pre_events @ steps
                    @ [Unlink ?concat_file, Unlink ?temp_looped, Unlink ?trimmed]
                    @ (if processed \<noteq> video_path then [Unlink processed] else [])"
        by (simp_all add: new_events_def)
      from cleanup_complete [OF tw fw pre_created steps_created pre_quiet steps_quiet files0] Inr
      show ?thesis by simp
    next
      fix us q
      assume "trace (snd ?cl) = trace w8 @ us @ [UnlinkFailed q]" and us: "list_all is_unlink us"
      with w' w8 have tw: "new_events w w' = pre_events @ steps @ us @ [UnlinkFailed q]"
        by (simp add: new_events_def)
      have "\<not> list_all (\<lambda>ev. \<not> is_unlink_failed ev) (new_events w w')"
        unfolding tw by (simp add: is_unlink_failed_def)
      moreover have "\<forall>p. UnlinkFailed p \<in> set (new_events w w') \<longrightarrow> last (new_events w w') = UnlinkFailed p"
        using pre_quiet steps_quiet unlinks_not_failed [OF us] unfolding tw by auto
      ultimately show ?thesis using Inr by simp
    qed
  qed
qed

theorem cleanup_is_best_effort_witness:
  "(\<exists>r w'. loop_video_to_match_audio (durations_env (1280, 720) 10 25 ffmpeg_ok)
             (Path ''in'' ''bg.mp4'') (Path ''in'' ''voice.mp3'') (Path ''out'' ''final.mp4'')
             ''high_quality'' demo_world = (Inr r, w') \<and>
      list_all (\<lambda>ev. \<not> is_unlink_failed ev) (new_events demo_world w') \<and>
      Scale (Path ''in'' ''bg.mp4'') (Path ''out'' ''scaled_input_bg.mp4'') ''high_quality''
        \<in> set (new_events demo_world w') \<and>
      unlinked_after (Scale (Path ''in'' ''bg.mp4'') (Path ''out'' ''scaled_input_bg.mp4'') ''high_quality'')
        (Path ''out'' ''scaled_input_bg.mp4'') (new_events demo_world w') \<and>
      Path ''out'' ''scaled_input_bg.mp4'' \<notin> files w' \<and>
      Path ''out'' ''concat_list.txt'' \<notin> files w' \<and>
      Path ''out'' ''temp_looped.mp4'' \<notin> files w' \<and>
      Path ''out'' ''temp_trimmed.mp4'' \<notin> files w' \<and>
      files w' \<subseteq> insert (Path ''out'' ''final.mp4'') (files demo_world)) \<and>
   (\<exists>e w'. loop_video_to_match_audio (durations_env (1280, 720) 10 25 concat_fails)
             (Path ''in'' ''bg.mp4'') (Path ''in'' ''voice.mp3'') (Path ''out'' ''final.mp4'')
             ''high_quality'' demo_world = (Inl e, w') \<and>
      list_all no_unlink (new_events demo_world w') \<and>
      files demo_world \<subseteq> files w') \<and>
   (\<exists>r w'. loop_video_to_match_audio
             (unlink_denied (Path ''out'' ''temp_looped.mp4'') (durations_env (1280, 720) 10 25 ffmpeg_ok))
             (Path ''in'' ''bg.mp4'') (Path ''in'' ''voice.mp3'') (Path ''out'' ''final.mp4'')
             ''high_quality'' demo_world = (Inr r, w') \<and>
      UnlinkFailed (Path ''out'' ''temp_looped.mp4'') \<in> set (new_events demo_world w') \<and>
      last (new_events demo_world w') = UnlinkFailed (Path ''out'' ''temp_looped.mp4'') \<and>
      Path ''out'' ''temp_trimmed.mp4'' \<in> files w' \<and>
      Path ''out'' ''scaled_input_bg.mp4'' \<in> files w')"
proof (intro conjI)
  from cleanup_is_best_effort [OF scaled_loop_run]
  show "\<exists>r w'. loop_video_to_match_audio (durations_env (1280, 720) 10 25 ffmpeg_ok)
             (Path ''in'' ''bg.mp4'') (Path ''in'' ''voice.mp3'') (Path ''out'' ''final.mp4'')
             ''high_quality'' demo_world = (Inr r, w') \<and>
      list_all (\<lambda>ev. \<not> is_unlink_failed ev) (new_events demo_world w') \<and>
      Scale (Path ''in'' ''bg.mp4'') (Path ''out'' ''scaled_input_bg.mp4'') ''high_quality''
        \<in> set (new_events demo_world w') \<and>
      unlinked_after (Scale (Path ''in'' ''bg.mp4'') (Path ''out'' ''scaled_input_bg.mp4'') ''high_quality'')
        (Path ''out'' ''scaled_input_bg.mp4'') (new_events demo_world w') \<and>
      Path ''out'' ''scaled_input_bg.mp4'' \<notin> files w' \<and>
      Path ''out'' ''concat_list.txt'' \<notin> files w' \<and>
      Path ''out'' ''temp_looped.mp4'' \<notin> files w' \<and>
      Path ''out'' ''temp_trimmed.mp4'' \<notin> files w' \<and>
      files w' \<subseteq> insert (Path ''out'' ''final.mp4'') (files demo_world)"
    unfolding scaled_loop_run
    by (simp add: new_events_def demo_world_def is_unlink_failed_def created_simps)
  from cleanup_is_best_effort [OF concat_fails_run]
  show "\<exists>e w'. loop_video_to_match_audio (durations_env (1280, 720) 10 25 concat_fails)
             (Path ''in'' ''bg.mp4'') (Path ''in'' ''voice.mp3'') (Path ''out'' ''final.mp4'')
             ''high_quality'' demo_world = (Inl e, w') \<and>
      list_all no_unlink (new_events demo_world w') \<and>
      files demo_world \<subseteq> files w'"
    unfolding concat_fails_run
    by (simp add: new_events_def demo_world_def)
  from cleanup_is_best_effort [OF unlink_denied_run]
  show "\<exists>r w'. loop_video_to_match_audio
             (unlink_denied (Path ''out'' ''temp_looped.mp4'') (durations_env (1280, 720) 10 25 ffmpeg_ok))
             (Path ''in'' ''bg.mp4'') (Path ''in'' ''voice.mp3'') (Path ''out'' ''final.mp4'')
             ''high_quality'' demo_world = (Inr r, w') \<and>
      UnlinkFailed (Path ''out'' ''temp_looped.mp4'') \<in> set (new_events demo_world w') \<and>
      last (new_events demo_world w') = UnlinkFailed (Path ''out'' ''temp_looped.mp4'') \<and>
      Path ''out'' ''temp_trimmed.mp4'' \<in> files w' \<and>
      Path ''out'' ''scaled_input_bg.mp4'' \<in> files w'"
    unfolding unlink_denied_run
    by (simp add: new_events_def demo_world_def)
qed

text \<open>
  C2 fails as stated: with a 1280x720 video (so scaling occurs), a video of 10 s and an
  audio of 25 s, and an ffmpeg that fails on the concatenation, the call raises and both
  the concat list and the scaled input, neither of which existed before, are still on
  disk.
\<close>

theorem cleanup_skipped_when_concat_fails:
  "fst (loop_video_to_match_audio (durations_env (1280, 720) 10 25 concat_fails)
          (Path ''in'' ''bg.mp4'') (Path ''in'' ''voice.mp3'') (Path ''out'' ''final.mp4'')
          ''high_quality'' demo_world)
     = Inl (RuntimeError ''Video looping failed: Invalid data found when processing input'') \<and>
   Path ''out'' ''concat_list.txt''
     \<in> files (snd (loop_video_to_match_audio (durations_env (1280, 720) 10 25 concat_fails)
                     (Path ''in'' ''bg.mp4'') (Path ''in'' ''voice.mp3'') (Path ''out'' ''final.mp4'')
                     ''high_quality'' demo_world)) \<and>
   Path ''out'' ''scaled_input_bg.mp4''
     \<in> files (snd (loop_video_to_match_audio (durations_env (1280, 720) 10 25 concat_fails)
                     (Path ''in'' ''bg.mp4'') (Path ''in'' ''voice.mp3'') (Path ''out'' ''final.mp4'')
                     ''high_quality'' demo_world)) \<and>
   Path ''out'' ''concat_list.txt'' \<notin> files demo_world \<and>
   Path ''out'' ''scaled_input_bg.mp4'' \<notin> files demo_world"
  by (simp add: run_defs env_defs py_int_def str_path_def)

section \<open>Properties of the job scheduler\<close>

text \<open>
  C8. For a batch of more than one task (the hardware encoder being advertised at both
  checks) the scheduler calls the pool constructor exactly once, with
  \<open>min max_workers 6\<close> workers; a request of 20 gives a pool of 6. For a positive request
  the pool is created and the scheduler returns a batch result.
\<close>

theorem pool_size_is_min_of_request_and_six:
  assumes "fst (check_gpu_available env w)"
    and "fst (check_gpu_available env (emit RunEncoders w))"
    and "1 < length tasks"
  shows "filter is_pool (new_events w (snd (process_videos_smart env tasks max_workers quality_preset w)))
           = [ThreadPool (min max_workers 6)] \<and>
         (0 < max_workers \<longrightarrow>
            (\<exists>batch. fst (process_videos_smart env tasks max_workers quality_preset w) = Inr batch)) \<and>
         (max_workers = 20 \<longrightarrow>
            filter is_pool (new_events w (snd (process_videos_smart env tasks max_workers quality_preset w)))
              = [ThreadPool 6])"
proof -
  let ?w1 = "emit RunEncoders w"
  let ?w2 = "emit RunEncoders ?w1"
  let ?w3 = "emit (ThreadPool (min max_workers 6)) ?w2"
  let ?prepared = "map (\<lambda>task. task\<lparr>t_quality_preset := Some quality_preset\<rparr>) tasks"
  have g1: "check_gpu_available env w = (True, ?w1)"
    using assms(1) check_gpu_eq [of env w] by simp
  have g2: "check_gpu_available env ?w1 = (True, ?w2)"
    using assms(2) check_gpu_eq [of env ?w1] by simp
  have many: "tasks \<noteq> []" "length tasks \<noteq> Suc 0"
    using assms(3) by auto
  show ?thesis
  proof (cases "0 < max_workers")
    case False
    then have "process_videos_smart env tasks max_workers quality_preset w
                 = (Inl (ValueError ''max_workers must be greater than 0''), ?w3)"
      using many
      by (simp add: process_videos_smart_def process_videos_parallel_def g1 g2
            thread_pool_executor_def Let_def)
    then show ?thesis using False
      by (simp add: new_events_def emit_def is_pool_def)
  next
    case True
    obtain rs w4 where c: "collect_results env (as_completed (completion env) ?prepared) [] ?w3 = (rs, w4)"
      by (cases "collect_results env (as_completed (completion env) ?prepared) [] ?w3")
    from trace_collect_results [of env "as_completed (completion env) ?prepared" "[]" ?w3] c
    obtain es where es: "trace w4 = trace ?w3 @ es" "list_all task_event es" by auto
    have r: "\<exists>batch. process_videos_smart env tasks max_workers quality_preset w = (Inr batch, w4)"
      using many True
      by (simp add: process_videos_smart_def process_videos_parallel_def g1 g2
            thread_pool_executor_def Let_def c)
    then obtain batch where b: "process_videos_smart env tasks max_workers quality_preset w = (Inr batch, w4)"
      by blast
    have "new_events w w4 = [RunEncoders, RunEncoders, ThreadPool (min max_workers 6)] @ es"
      using es by (simp add: new_events_def emit_def)
    then have "filter is_pool (new_events w w4) = [ThreadPool (min max_workers 6)]"
      using task_event_not_pool [OF es(2)] by (simp add: is_pool_def)
    with b show ?thesis by auto
  qed
qed

theorem pool_size_is_min_of_request_and_six_witness:
  "fst (check_gpu_available batch_env demo_world) \<and>
   fst (check_gpu_available batch_env (emit RunEncoders demo_world)) \<and>
   1 < length demo_tasks \<and>
   filter is_pool (new_events demo_world
      (snd (process_videos_smart batch_env demo_tasks 20 ''high_quality'' demo_world)))
     = [ThreadPool 6]"
proof -
  have len: "1 < length demo_tasks" by (simp add: demo_tasks_def)
  show ?thesis
    using pool_size_is_min_of_request_and_six
        [where env = batch_env and w = demo_world and tasks = demo_tasks and max_workers = 20 and
           quality_preset = "''high_quality''", OF demo_gpu demo_gpu len]
      demo_gpu len
    by simp
qed

text \<open>
  C9. With an empty task list the scheduler runs the hardware check and nothing else: the
  only event is the encoder probe and no file changes. When the check passes the result
  is the empty batch (no results, total time 0, both counts 0); when it fails the
  hardware-unavailable error is raised.
\<close>

theorem empty_batch_returns_empty_result:
  "fst (process_videos_smart env [] max_workers quality_preset w) =
     (if fst (check_gpu_available env w)
      then Inr \<lparr>b_results = [], b_total_time = 0, b_successful_count = 0, b_failed_count = 0,
                b_processing_mode = Some ''none''\<rparr>
      else Inl gpu_unavailable) \<and>
   new_events w (snd (process_videos_smart env [] max_workers quality_preset w)) = [RunEncoders] \<and>
   files (snd (process_videos_smart env [] max_workers quality_preset w)) = files w"
  using check_gpu_eq [of env w]
  by (cases "fst (check_gpu_available env w)")
     (auto simp: process_videos_smart_def Let_def new_events_def emit_def split: prod.split)

theorem empty_batch_returns_empty_result_witness:
  "fst (process_videos_smart batch_env [] 4 ''high_quality'' demo_world) =
     Inr \<lparr>b_results = [], b_total_time = 0, b_successful_count = 0, b_failed_count = 0,
          b_processing_mode = Some ''none''\<rparr> \<and>
   new_events demo_world (snd (process_videos_smart batch_env [] 4 ''high_quality'' demo_world))
     = [RunEncoders]"
  using empty_batch_returns_empty_result
      [where env = batch_env and w = demo_world and max_workers = 4 and
         quality_preset = "''high_quality''"] demo_gpu
  by simp

lemma process_single_cases:
  "(\<exists>p t w'. loop_video_to_match_audio env (t_video_path task) (t_audio_path task) (t_output_path task)
            (case t_quality_preset task of None \<Rightarrow> ''high_quality'' | Some q \<Rightarrow> q) w = (Inr (p, t), w') \<and>
      process_single_video_task env task w =
        (\<lparr>r_status = ''success'', r_output_path = Some p, r_video_path = t_video_path task,
          r_audio_path = t_audio_path task, r_error = None, r_processing_time = t,
          r_total_time = clock env w' - clock env w\<rparr>, w')) \<or>
   (\<exists>e w'. loop_video_to_match_audio env (t_video_path task) (t_audio_path task) (t_output_path task)
            (case t_quality_preset task of None \<Rightarrow> ''high_quality'' | Some q \<Rightarrow> q) w = (Inl e, w') \<and>
      str_exn e \<noteq> [] \<and>
      process_single_video_task env task w =
        (\<lparr>r_status = ''failed'', r_output_path = None, r_video_path = t_video_path task,
          r_audio_path = t_audio_path task, r_error = Some (str_exn e), r_processing_time = 0,
          r_total_time = clock env w' - clock env w\<rparr>, w'))"
proof -
  let ?l = "loop_video_to_match_audio env (t_video_path task) (t_audio_path task) (t_output_path task)
            (case t_quality_preset task of None \<Rightarrow> ''high_quality'' | Some q \<Rightarrow> q) w"
  obtain r w' where l: "?l = (r, w')" by (cases ?l)
  show ?thesis
  proof (cases r)
    case (Inl e)
    with l have "str_exn e \<noteq> []" using raises_strD [OF raises_loop_video] by blast
    with l Inl show ?thesis by (simp add: process_single_video_task_def Let_def)
  next
    case (Inr pt)
    with l show ?thesis by (cases pt) (simp add: process_single_video_task_def Let_def)
  qed
qed

lemma process_single_ok:
  "result_ok (fst (process_single_video_task env task w)) \<and>
   r_video_path (fst (process_single_video_task env task w)) = t_video_path task \<and>
   r_audio_path (fst (process_single_video_task env task w)) = t_audio_path task"
  using process_single_cases [of env task w] by (auto simp: result_ok_def)

lemma collect_results_inv:
  "list_all result_ok acc \<Longrightarrow>
   list_all result_ok (fst (collect_results env ts acc w)) \<and>
   map result_key (fst (collect_results env ts acc w)) = map result_key acc @ map task_key ts"
proof (induction ts arbitrary: acc w)
  case Nil
  then show ?case by simp
next
  case (Cons t ts)
  obtain r w1 where p: "process_single_video_task env t w = (r, w1)"
    by (cases "process_single_video_task env t w")
  from process_single_ok [of env t w] p have r: "result_ok r" "result_key r = task_key t"
    by (simp_all add: result_key_def task_key_def)
  from Cons.prems r have "list_all result_ok (acc @ [r])" by simp
  from Cons.IH [OF this, of w1] p r show ?case by (simp add: future_result_def)
qed

lemma mset_as_completed: "mset (as_completed ks xs) = mset xs"
proof (induction xs arbitrary: ks)
  case Nil
  then show ?case by simp
next
  case (Cons x xs)
  have "mset (take k ys @ x # drop k ys) = add_mset x (mset ys)" for k and ys :: "'a list"
    by (metis append_take_drop_id mset.simps(2) mset_append union_mset_add_mset_right)
  with Cons show ?case by (simp add: Let_def)
qed

lemma result_ok_status: "result_ok r \<Longrightarrow> (r_status r = ''success'') \<noteq> (r_status r = ''failed'')"
  unfolding result_ok_def by (cases "r_status r = ''success''") simp_all

lemma filter_status:
  "list_all result_ok rs \<Longrightarrow>
   length (filter (\<lambda>r. r_status r = ''success'') rs) + length (filter (\<lambda>r. r_status r = ''failed'') rs)
     = length rs"
proof (induction rs)
  case Nil
  then show ?case by simp
next
  case (Cons r rs)
  then have "result_ok r" and rest: "list_all result_ok rs" by simp_all
  from result_ok_status [OF this(1)] Cons.IH [OF rest] show ?case
    by (cases "r_status r = ''success''") simp_all
qed

lemma parallel_results:
  assumes "process_videos_parallel env tasks mw q w = (Inr batch, w')"
  shows "list_all result_ok (b_results batch) \<and>
         mset (map result_key (b_results batch)) = mset (map task_key tasks) \<and>
         b_successful_count batch = int (length (filter (\<lambda>r. r_status r = ''success'') (b_results batch))) \<and>
         b_failed_count batch = int (length (b_results batch)) - b_successful_count batch"
proof -
  let ?prepared = "map (\<lambda>task. task\<lparr>t_quality_preset := Some q\<rparr>) tasks"
  let ?order = "as_completed (completion env) ?prepared"
  let ?w1 = "emit RunEncoders w"
  let ?w2 = "emit (ThreadPool (min mw 6)) ?w1"
  have gpu: "check_gpu_available env w = (True, ?w1)"
  proof (cases "fst (check_gpu_available env w)")
    case True
    then show ?thesis using check_gpu_eq [of env w] by simp
  next
    case False
    then have "check_gpu_available env w = (False, ?w1)" using check_gpu_eq [of env w] by simp
    then have "fst (process_videos_parallel env tasks mw q w) = Inl gpu_unavailable"
      by (simp add: process_videos_parallel_def)
    with assms show ?thesis by simp
  qed
  have pos: "\<not> min mw 6 \<le> 0"
  proof
    assume "min mw 6 \<le> 0"
    then have "thread_pool_executor (min mw 6) ?w1 =
                 (Inl (ValueError ''max_workers must be greater than 0''), ?w2)"
      by (simp only: thread_pool_executor_def if_True)
    then have "fst (process_videos_parallel env tasks mw q w) =
                 Inl (ValueError ''max_workers must be greater than 0'')"
      by (simp add: process_videos_parallel_def gpu Let_def)
    with assms show False by simp
  qed
  have pool: "thread_pool_executor (min mw 6) ?w1 = (Inr (), ?w2)"
    using pos by (simp only: thread_pool_executor_def if_False)
  obtain rs w3 where c: "collect_results env ?order [] ?w2 = (rs, w3)"
    by (cases "collect_results env ?order [] ?w2")
  have "process_videos_parallel env tasks mw q w =
          (Inr \<lparr>b_results = rs, b_total_time = clock env w3 - clock env w,
                b_successful_count = int (length (filter (\<lambda>r. r_status r = ''success'') rs)),
                b_failed_count = int (length rs) - int (length (filter (\<lambda>r. r_status r = ''success'') rs)),
                b_processing_mode = None\<rparr>, w3)"
    by (simp add: process_videos_parallel_def gpu pool Let_def c)
  with assms have batch: "b_results batch = rs"
      "b_successful_count batch = int (length (filter (\<lambda>r. r_status r = ''success'') rs))"
      "b_failed_count batch = int (length rs) - int (length (filter (\<lambda>r. r_status r = ''success'') rs))"
    by auto
  have inv: "list_all result_ok (fst (collect_results env ?order [] ?w2)) \<and>
        map result_key (fst (collect_results env ?order [] ?w2)) = map result_key [] @ map task_key ?order"
    by (rule collect_results_inv) simp
  have keys: "map task_key ?prepared = map task_key tasks"
    by (simp add: task_key_def)
  have "mset (map task_key ?order) = image_mset task_key (mset ?order)"
    by (rule mset_map)
  also have "\<dots> = image_mset task_key (mset ?prepared)"
    by (simp only: mset_as_completed)
  also have "\<dots> = mset (map task_key ?prepared)"
    by (rule mset_map [symmetric])
  finally have "mset (map task_key ?order) = mset (map task_key tasks)"
    by (simp only: keys)
  with inv c batch show ?thesis by simp
qed

lemma smart_gpu:
  assumes "process_videos_smart env tasks mw q w = (Inr batch, w')"
  shows "check_gpu_available env w = (True, emit RunEncoders w)"
proof (cases "fst (check_gpu_available env w)")
  case True
  then show ?thesis using check_gpu_eq [of env w] by simp
next
  case False
  then have "check_gpu_available env w = (False, emit RunEncoders w)"
    using check_gpu_eq [of env w] by simp
  then have "fst (process_videos_smart env tasks mw q w) = Inl gpu_unavailable"
    by (simp add: process_videos_smart_def)
  with assms show ?thesis by simp
qed

lemma smart_single:
  assumes gpu: "check_gpu_available env w = (True, w1)"
  shows "process_videos_smart env [t] mw q w =
     (case loop_video_to_match_audio env (t_video_path t) (t_audio_path t) (t_output_path t) q w1 of
        (Inr (result_path, processing_time), w2) \<Rightarrow>
          (Inr \<lparr>b_results = [\<lparr>r_status = ''success'', r_output_path = Some result_path,
                               r_video_path = t_video_path t, r_audio_path = t_audio_path t,
                               r_error = None, r_processing_time = processing_time,
                               r_total_time = clock env w2 - clock env w\<rparr>],
                b_total_time = clock env w2 - clock env w, b_successful_count = 1,
                b_failed_count = 0, b_processing_mode = Some ''single_gpu''\<rparr>, w2)
      | (Inl e, w2) \<Rightarrow>
          (Inr \<lparr>b_results = [\<lparr>r_status = ''failed'', r_output_path = None,
                               r_video_path = t_video_path t, r_audio_path = t_audio_path t,
                               r_error = Some (str_exn e), r_processing_time = 0,
                               r_total_time = clock env w2 - clock env w\<rparr>],
                b_total_time = clock env w2 - clock env w, b_successful_count = 0,
                b_failed_count = 1, b_processing_mode = Some ''single_gpu''\<rparr>, w2))"
  by (simp add: process_videos_smart_def gpu Let_def split: prod.split sum.split)

lemma smart_many:
  assumes gpu: "check_gpu_available env w = (True, w1)" and many: "1 < length tasks"
  shows "process_videos_smart env tasks mw q w =
     (case process_videos_parallel env tasks mw q w1 of
        (Inl e, w2) \<Rightarrow> (Inl e, w2)
      | (Inr result, w2) \<Rightarrow> (Inr (result\<lparr>b_processing_mode := Some ''parallel_gpu''\<rparr>), w2))"
proof -
  from many have "tasks \<noteq> []" "length tasks \<noteq> Suc 0" by auto
  then show ?thesis by (simp add: process_videos_smart_def gpu Let_def)
qed

lemma smart_results:
  assumes "process_videos_smart env tasks mw q w = (Inr batch, w')"
  shows "list_all result_ok (b_results batch) \<and>
         mset (map result_key (b_results batch)) = mset (map task_key tasks) \<and>
         b_successful_count batch = int (length (filter (\<lambda>r. r_status r = ''success'') (b_results batch))) \<and>
         b_failed_count batch = int (length (b_results batch)) - b_successful_count batch"
proof -
  let ?w1 = "emit RunEncoders w"
  note gpu = smart_gpu [OF assms]
  consider "tasks = []" | t where "tasks = [t]" | "1 < length tasks"
    by (cases tasks; cases "tl tasks") auto
  then show ?thesis
  proof cases
    case 1
    then have "process_videos_smart env tasks mw q w =
        (Inr \<lparr>b_results = [], b_total_time = 0, b_successful_count = 0, b_failed_count = 0,
              b_processing_mode = Some ''none''\<rparr>, ?w1)"
      by (simp add: process_videos_smart_def gpu)
    with assms have "b_results batch = []" "b_successful_count batch = 0" "b_failed_count batch = 0"
      by auto
    with 1 show ?thesis by simp
  next
    case 2
    let ?l = "loop_video_to_match_audio env (t_video_path t) (t_audio_path t) (t_output_path t) q ?w1"
    obtain r w2 where l: "?l = (r, w2)" by (cases ?l)
    show ?thesis
    proof (cases r)
      case (Inl e)
      with l have ne: "str_exn e \<noteq> []" using raises_strD [OF raises_loop_video] by blast
      from assms 2 l Inl have
        "batch = \<lparr>b_results = [\<lparr>r_status = ''failed'', r_output_path = None,
                               r_video_path = t_video_path t, r_audio_path = t_audio_path t,
                               r_error = Some (str_exn e), r_processing_time = 0,
                               r_total_time = clock env w2 - clock env w\<rparr>],
                b_total_time = clock env w2 - clock env w, b_successful_count = 0,
                b_failed_count = 1, b_processing_mode = Some ''single_gpu''\<rparr>"
        by (auto simp: smart_single [OF gpu])
      with ne 2 show ?thesis
        by (simp add: result_ok_def result_key_def task_key_def)
    next
      case (Inr pt)
      obtain p pt_time where pt: "pt = (p, pt_time)" by (cases pt)
      from assms 2 l Inr pt have
        "batch = \<lparr>b_results = [\<lparr>r_status = ''success'', r_output_path = Some p,
                               r_video_path = t_video_path t, r_audio_path = t_audio_path t,
                               r_error = None, r_processing_time = pt_time,
                               r_total_time = clock env w2 - clock env w\<rparr>],
                b_total_time = clock env w2 - clock env w, b_successful_count = 1,
                b_failed_count = 0, b_processing_mode = Some ''single_gpu''\<rparr>"
        by (auto simp: smart_single [OF gpu])
      with 2 show ?thesis
        by (simp add: result_ok_def result_key_def task_key_def)
    qed
  next
    case 3
    obtain r w2 where p: "process_videos_parallel env tasks mw q ?w1 = (r, w2)"
      by (cases "process_videos_parallel env tasks mw q ?w1")
    show ?thesis
    proof (cases r)
      case (Inl e)
      with assms p show ?thesis by (simp add: smart_many [OF gpu 3])
    next
      case (Inr b)
      with assms p have b: "batch = b\<lparr>b_processing_mode := Some ''parallel_gpu''\<rparr>"
        by (auto simp: smart_many [OF gpu 3])
      from parallel_results [OF p [unfolded Inr]] b show ?thesis by simp
    qed
  qed
qed

text \<open>
  C10. Whenever the scheduler returns a batch, on the empty, the single and the parallel
  path alike, the batch holds exactly one result record per submitted task (the records
  carry the video and audio paths of the tasks, as multisets), the successful and failed
  counts add up to the number of tasks, and they count the records of status
  \<open>success\<close> and \<open>failed\<close>.
\<close>

theorem one_result_per_task:
  assumes "process_videos_smart env tasks max_workers quality_preset w = (Inr batch, w')"
  shows "length (b_results batch) = length tasks \<and>
         mset (map result_key (b_results batch)) = mset (map task_key tasks) \<and>
         b_successful_count batch + b_failed_count batch = int (length tasks) \<and>
         b_successful_count batch = int (length (filter (\<lambda>r. r_status r = ''success'') (b_results batch))) \<and>
         b_failed_count batch = int (length (filter (\<lambda>r. r_status r = ''failed'') (b_results batch)))"
proof -
  note r = smart_results [OF assms]
  from r have "size (mset (map result_key (b_results batch))) = size (mset (map task_key tasks))"
    by simp
  then have len: "length (b_results batch) = length tasks" by simp
  from r filter_status [of "b_results batch"] len show ?thesis by simp
qed

theorem one_result_per_task_witness:
  "process_videos_smart batch_env demo_tasks 20 ''high_quality'' demo_world =
     (Inr \<lparr>b_results =
            [\<lparr>r_status = ''failed'', r_output_path = None,
               r_video_path = Path ''in'' ''bg.mp4'', r_audio_path = Path ''in'' ''missing.mp3'',
               r_error = Some ''ffprobe error: No such file or directory'',
               r_processing_time = 0, r_total_time = 3\<rparr>,
             \<lparr>r_status = ''success'', r_output_path = Some (Path ''out'' ''a.mp4''),
               r_video_path = Path ''in'' ''bg.mp4'', r_audio_path = Path ''in'' ''voice.mp3'',
               r_error = None, r_processing_time = 4, r_total_time = 4\<rparr>,
             \<lparr>r_status = ''success'', r_output_path = Some (Path ''out'' ''c.mp4''),
               r_video_path = Path ''in'' ''bg.mp4'', r_audio_path = Path ''in'' ''voice.mp3'',
               r_error = None, r_processing_time = 4, r_total_time = 4\<rparr>],
           b_total_time = 13, b_successful_count = 2, b_failed_count = 1,
           b_processing_mode = Some ''parallel_gpu''\<rparr>,
      snd (process_videos_smart batch_env demo_tasks 20 ''high_quality'' demo_world)) \<and>
   length demo_tasks = 3 \<and> (2::int) + 1 = int (length demo_tasks)"
proof -
  have "length demo_tasks = 3" by (simp add: demo_tasks_def)
  with one_result_per_task [OF demo_run] demo_run show ?thesis by simp
qed





end
